theory Spec2Isabelle
  imports Complex_Main "HOL-Library.Multiset"
begin

section \<open>Tables\<close>

text \<open>
  Amounts are exact rationals (the columns are decimals; the rounding of JavaScript
  doubles is not modelled). User ids, row ids and timestamps are naturals. Strings that
  the code compares (assets, ledger types, statuses, sources) stay strings, already
  normalised the way the handlers normalise them (upper-cased assets, lower-cased
  sources).

  The column \<open>wallet_ledger.ref_id\<close> holds either NULL, the decimal rendering of a row
  id (a deposit id, a position id, a recipient id, a claim id, or the legacy reward
  credit id), or the text \<open>reward_credit:<id>\<close>.
\<close>

datatype ref_id = NullRef | NumRef nat | RewardCreditRef nat

text \<open>
  A transaction hash is one reported by the chain, or one of the placeholders the credit
  helpers write (\<open>MANUAL-<id>\<close>, \<open>BSC-<id>\<close>).
\<close>

datatype tx_hash = Hash string | MANUAL_TX nat | BSC_TX nat

record ledger_row =
  l_user :: nat
  l_asset :: string
  l_chain :: "string option"
  l_type :: string
  l_amount :: rat
  l_ref :: ref_id

record staking_position =
  p_id :: nat
  p_user :: nat
  p_units :: int
  p_unit_amount_usdt :: rat
  p_amount_usdt :: rat
  p_cap_multiplier :: rat
  p_cap_usdt :: rat
  p_credited_usdt :: rat
  p_status :: string

record crypto_deposit =
  d_id :: nat
  d_user :: nat
  d_chain :: string
  d_asset :: string
  d_source :: "string option"
  d_amount_received :: "rat option"
  d_confirmations :: nat
  d_required_confirmations :: nat
  d_status :: string
  d_tx_hash :: "tx_hash option"
  d_swept :: bool

record conditions =
  deposit_usdt_min :: "rat option"
  deposit_source :: "string option"
  referrals_min :: "rat option"
  referee_deposit_usdt_min :: "rat option"
  referee_deposit_source :: "string option"

record progress =
  deposit_usdt_total :: rat
  referrals_total :: nat
  referrals_done :: nat
  referrals_required_min :: rat
  referrals_missing :: "(nat \<times> rat \<times> rat) list"
  updated_at :: nat

record reward_credit =
  c_id :: nat
  c_user :: nat
  c_amount_usdt :: rat
  c_conditions :: conditions
  c_progress :: "progress option"
  c_status :: string
  c_claimable_at :: "nat option"
  c_claimed_at :: "nat option"
  c_expires_at :: "nat option"

record user_row =
  u_id :: nat
  u_referrer_id :: "nat option"

record airdrop_row =
  a_round :: nat
  a_trigger_units :: int
  a_airdrop_units :: nat

record recipient_row =
  r_airdrop_id :: nat
  r_user :: nat
  r_position :: nat
  r_amount_usdt :: rat

record referral_event =
  e_referee :: nat
  e_referrer :: nat
  e_type :: string
  e_asset :: string
  e_base_amount :: rat
  e_commission_amount :: rat
  e_status :: string
  e_source_ref :: string
  e_level :: string
  e_claim_id :: "nat option"

record referral_claim =
  rc_referrer :: nat
  rc_amount :: rat

record db =
  wallet_balances :: "nat \<times> string \<rightharpoonup> rat"
  wallet_ledger :: "ledger_row list"
  staking_positions :: "staking_position list"
  staking_airdrops :: "airdrop_row list"
  staking_airdrop_recipients :: "recipient_row list"
  crypto_deposits :: "crypto_deposit list"
  reward_credits :: "reward_credit list"
  users :: "user_row list"
  referral_events :: "referral_event list"
  referral_claims :: "referral_claim list"

datatype error =
  BAD_BODY | BAD_AMOUNT | BAD_ADDRESS | BANK_DETAILS_INCOMPLETE | BAD_QUOTE
  | PAIR_NOT_SUPPORTED | ONLY_USDT_SUPPORTED | UNSUPPORTED_CHAIN
  | MIN_900_VPK | INSUFFICIENT_FUNDS
  | deposit_not_found | invalid_amount
  | NO_TOKEN | BAD_CREDIT_ID | NOT_FOUND | EXPIRED | NOT_CLAIMABLE
  | BAD_INPUT | NO_RECIPIENTS | NO_RATE | NO_COMMISSION | NO_EFFECTIVE_WEIGHTS
  | NO_COMMISSION_EVENTS | MIN_NOT_MET | ALREADY_ATTACHED | SELF_REFERRAL | NO_USER

section \<open>Wallet: the balance projection and the ledger\<close>

text \<open>
  \<open>wallet_balances\<close> has one row per (user, asset). The three statements the handlers
  use on it: the upsert \<open>INSERT ... ON DUPLICATE KEY UPDATE balance = balance + VALUES(balance)\<close>,
  the no-op insert \<open>... ON DUPLICATE KEY UPDATE balance = balance\<close>, and the plain
  \<open>UPDATE ... SET balance = balance + ?\<close>, which touches an existing row only.
\<close>

definition bal_upsert :: "(nat \<times> string \<rightharpoonup> rat) \<Rightarrow> nat \<Rightarrow> string \<Rightarrow> rat \<Rightarrow> (nat \<times> string \<rightharpoonup> rat)" where
  "bal_upsert B u a x =
     B((u, a) \<mapsto> (case B (u, a) of None \<Rightarrow> x | Some b \<Rightarrow> b + x))"

definition bal_ensure :: "(nat \<times> string \<rightharpoonup> rat) \<Rightarrow> nat \<Rightarrow> string \<Rightarrow> (nat \<times> string \<rightharpoonup> rat)" where
  "bal_ensure B u a = (case B (u, a) of None \<Rightarrow> B((u, a) \<mapsto> 0) | Some b \<Rightarrow> B)"

definition bal_update :: "(nat \<times> string \<rightharpoonup> rat) \<Rightarrow> nat \<Rightarrow> string \<Rightarrow> rat \<Rightarrow> (nat \<times> string \<rightharpoonup> rat)" where
  "bal_update B u a x = (case B (u, a) of None \<Rightarrow> B | Some b \<Rightarrow> B((u, a) \<mapsto> b + x))"

text \<open>\<open>Number(row?.balance || 0)\<close>: a missing row reads as 0.\<close>

definition currentBalance :: "(nat \<times> string \<rightharpoonup> rat) \<Rightarrow> nat \<Rightarrow> string \<Rightarrow> rat" where
  "currentBalance B u a = (case B (u, a) of None \<Rightarrow> 0 | Some b \<Rightarrow> b)"

text \<open>The classification of \<open>GET /v1/wallet/ledger\<close> in the wallet router.\<close>

definition PLUS :: "string list" where
  "PLUS = [''deposit'', ''refund'', ''transfer_in'', ''stake_payout'', ''stake_refund'',
           ''stake_referral'', ''referral_reward'', ''referral_bonus'', ''swap_in'']"

definition MINUS :: "string list" where
  "MINUS = [''withdraw'', ''transfer_out'', ''purchase'', ''fee'', ''stake_lock'', ''swap_out'']"

definition signed :: "ledger_row \<Rightarrow> rat" where
  "signed r =
     (if l_type r \<in> set PLUS then l_amount r
      else if l_type r \<in> set MINUS then - l_amount r
      else l_amount r)"

definition ledger_sum :: "ledger_row list \<Rightarrow> nat \<Rightarrow> string \<Rightarrow> rat" where
  "ledger_sum L u a = sum_list (map signed (filter (\<lambda>r. l_user r = u \<and> l_asset r = a) L))"

definition no_drift :: "db \<Rightarrow> nat \<Rightarrow> string \<Rightarrow> bool" where
  "no_drift s u a = (currentBalance (wallet_balances s) u a = ledger_sum (wallet_ledger s) u a)"

section \<open>Reward credits: the evaluation pass\<close>

text \<open>\<open>pick(conditions, keys, fallback)\<close>: the fallback stands in for a missing or null key.\<close>

definition pick :: "'a option \<Rightarrow> 'a \<Rightarrow> 'a" where
  "pick v fallback = (case v of Some x \<Rightarrow> x | None \<Rightarrow> fallback)"

text \<open>\<open>LEFT JOIN crypto_deposits d ON d.id = l.ref_id\<close>, read at \<open>d.source\<close>.\<close>

definition joined_source :: "crypto_deposit list \<Rightarrow> ledger_row \<Rightarrow> string option" where
  "joined_source D l =
     (case l_ref l of
        NumRef i \<Rightarrow> (case find (\<lambda>d. d_id d = i) D of Some d \<Rightarrow> d_source d | None \<Rightarrow> None)
      | _ \<Rightarrow> None)"

definition usdt_deposit_of :: "nat \<Rightarrow> ledger_row \<Rightarrow> bool" where
  "usdt_deposit_of u l = (l_user l = u \<and> l_type l = ''deposit'' \<and> l_asset l = ''USDT'')"

text \<open>\<open>getDepositTotals\<close>: the total of any source, of coinsph and of binance.\<close>

definition deposit_total_src :: "db \<Rightarrow> nat \<Rightarrow> string \<Rightarrow> rat" where
  "deposit_total_src s u src =
     sum_list (map l_amount
       (filter (\<lambda>l. usdt_deposit_of u l \<and>
                    (src = ''any'' \<or> joined_source (crypto_deposits s) l = Some src))
               (wallet_ledger s)))"

definition getDepositTotals :: "db \<Rightarrow> nat \<Rightarrow> rat \<times> rat \<times> rat" where
  "getDepositTotals s u =
     (deposit_total_src s u ''any'', deposit_total_src s u ''coinsph'',
      deposit_total_src s u ''binance'')"

text \<open>
  \<open>getReferralDepositProgress\<close>: one detail per referred account; an account is eligible
  when its (source-filtered) USDT deposit total reaches \<open>need\<close>. The result is
  (total, eligibleCount, missing).
\<close>

definition referral_details :: "db \<Rightarrow> nat \<Rightarrow> rat \<Rightarrow> string \<Rightarrow> (nat \<times> rat \<times> bool) list" where
  "referral_details s userId need src =
     map (\<lambda>u. (u_id u, deposit_total_src s (u_id u) src, deposit_total_src s (u_id u) src \<ge> need))
         (filter (\<lambda>u. u_referrer_id u = Some userId) (users s))"

definition getReferralDepositProgress ::
    "db \<Rightarrow> nat \<Rightarrow> rat \<Rightarrow> string \<Rightarrow> nat \<times> nat \<times> (nat \<times> rat \<times> rat) list" where
  "getReferralDepositProgress s userId minUsdt src =
     (let details = referral_details s userId minUsdt src
      in (length details,
          length (filter (\<lambda>(i, dep, el). el) details),
          map (\<lambda>(i, dep, el). (i, dep, minUsdt)) (filter (\<lambda>(i, dep, el). \<not> el) details)))"

text \<open>The per-credit values of the loop body of \<open>evaluateRewardCreditsForUser\<close>.\<close>

definition depositTotal_for :: "db \<Rightarrow> nat \<Rightarrow> conditions \<Rightarrow> rat" where
  "depositTotal_for s userId cond =
     (let (any, coinsph, binance) = getDepositTotals s userId;
          depositSource = pick (deposit_source cond) ''any''
      in if depositSource = ''coinsph'' then coinsph
         else if depositSource = ''binance'' then binance
         else any)"

definition refProg_for :: "db \<Rightarrow> nat \<Rightarrow> conditions \<Rightarrow> nat \<times> nat \<times> (nat \<times> rat \<times> rat) list" where
  "refProg_for s userId cond =
     (if pick (referrals_min cond) 0 > 0
      then getReferralDepositProgress s userId
             (pick (referee_deposit_usdt_min cond) 10)
             (pick (referee_deposit_source cond) ''any'')
      else (0, 0, []))"

definition depositOk :: "db \<Rightarrow> nat \<Rightarrow> conditions \<Rightarrow> bool" where
  "depositOk s userId cond =
     (let depositMin = pick (deposit_usdt_min cond) 0
      in if depositMin \<le> 0 then True else depositTotal_for s userId cond \<ge> depositMin)"

definition refOk :: "db \<Rightarrow> nat \<Rightarrow> conditions \<Rightarrow> bool" where
  "refOk s userId cond =
     (let referralsMin = pick (referrals_min cond) 0;
          (total, qualified, missing) = refProg_for s userId cond
      in if referralsMin \<le> 0 then True else rat_of_nat qualified \<ge> referralsMin)"

definition make_progress :: "db \<Rightarrow> nat \<Rightarrow> conditions \<Rightarrow> nat \<Rightarrow> progress" where
  "make_progress s userId cond now =
     (let (total, qualified, missing) = refProg_for s userId cond
      in \<lparr> deposit_usdt_total = depositTotal_for s userId cond,
           referrals_total = total,
           referrals_done = qualified,
           referrals_required_min = pick (referrals_min cond) 0,
           referrals_missing = missing,
           updated_at = now \<rparr>)"

text \<open>
  The four \<open>UPDATE reward_credits ... WHERE id=? AND status ...\<close> statements, each a
  rewrite of the rows that have the id and pass the status guard.
\<close>

definition update_credits ::
    "nat \<Rightarrow> (reward_credit \<Rightarrow> bool) \<Rightarrow> (reward_credit \<Rightarrow> reward_credit) \<Rightarrow> reward_credit list \<Rightarrow> reward_credit list" where
  "update_credits i guard f T = map (\<lambda>r. if c_id r = i \<and> guard r then f r else r) T"

definition eval_credit :: "db \<Rightarrow> nat \<Rightarrow> nat \<Rightarrow> reward_credit \<Rightarrow> reward_credit list \<Rightarrow> reward_credit list" where
  "eval_credit s userId now c T =
     (let cond = c_conditions c;
          pr = make_progress s userId cond now
      in if depositOk s userId cond \<and> refOk s userId cond then
           (if c_status c \<noteq> ''claimable'' then
              update_credits (c_id c)
                (\<lambda>r. c_status r = ''locked'' \<or> c_status r = ''claimable'')
                (\<lambda>r. r\<lparr>c_status := ''claimable'', c_claimable_at := Some now, c_progress := Some pr\<rparr>) T
            else
              update_credits (c_id c) (\<lambda>r. c_status r = ''claimable'')
                (\<lambda>r. r\<lparr>c_progress := Some pr\<rparr>) T)
         else
           (if c_status c = ''claimable'' then
              update_credits (c_id c) (\<lambda>r. c_status r = ''claimable'')
                (\<lambda>r. r\<lparr>c_status := ''locked'', c_claimable_at := None, c_progress := Some pr\<rparr>) T
            else
              update_credits (c_id c) (\<lambda>r. c_status r = ''locked'')
                (\<lambda>r. r\<lparr>c_progress := Some pr\<rparr>) T))"

text \<open>
  The SELECT of the pass: the user's credits that are locked or claimable and not
  expired, by id descending.
\<close>

definition evaluable :: "nat \<Rightarrow> nat \<Rightarrow> reward_credit \<Rightarrow> bool" where
  "evaluable userId now c =
     (c_user c = userId \<and> (c_status c = ''locked'' \<or> c_status c = ''claimable'') \<and>
      (case c_expires_at c of None \<Rightarrow> True | Some e \<Rightarrow> e > now))"

definition selected_credits :: "db \<Rightarrow> nat \<Rightarrow> nat \<Rightarrow> reward_credit list" where
  "selected_credits s userId now = rev (sort_key c_id (filter (evaluable userId now) (reward_credits s)))"

text \<open>
  The pass reads the ledger, the deposits and the users and writes \<open>reward_credits\<close>
  only, so the per-key cache of referral progress returns what a fresh computation
  returns; the counters it returns (\<open>updated\<close>, \<open>demoted\<close>) are read by no caller.
\<close>

definition evaluateRewardCreditsForUser :: "db \<Rightarrow> nat \<Rightarrow> nat \<Rightarrow> db" where
  "evaluateRewardCreditsForUser s userId now =
     (let credits = selected_credits s userId now
      in if credits = [] then s
         else s\<lparr>reward_credits := fold (eval_credit s userId now) credits (reward_credits s)\<rparr>)"

section \<open>Wallet swap\<close>

definition RATE_USDT_TO_VPK :: rat where
  "RATE_USDT_TO_VPK = 100"

definition swap_supported :: "string \<Rightarrow> string \<Rightarrow> bool" where
  "swap_supported fromAsset toAsset =
     (if fromAsset = ''USDT'' \<and> toAsset = ''VPK'' then True
      else if fromAsset = ''VPK'' \<and> toAsset = ''USDT'' then True
      else False)"

text \<open>\<open>POST /v1/wallet/swap\<close>: the availability check lets a shortfall of up to \<open>1e-9\<close> pass.\<close>

definition wallet_swap :: "db \<Rightarrow> nat \<Rightarrow> string \<Rightarrow> string \<Rightarrow> rat \<Rightarrow> error + db" where
  "wallet_swap s userId fromAsset toAsset fromAmount =
     (if fromAmount \<le> 0 then Inl BAD_AMOUNT
      else if swap_supported fromAsset toAsset = False then Inl PAIR_NOT_SUPPORTED
      else
        let creditAmount = (if fromAsset = ''USDT'' then fromAmount * RATE_USDT_TO_VPK
                            else fromAmount * (1 / RATE_USDT_TO_VPK));
            currentBal = currentBalance (wallet_balances s) userId fromAsset
        in if currentBal + 1 / 10 ^ 9 < fromAmount then Inl INSUFFICIENT_FUNDS
           else Inr (s\<lparr>
             wallet_balances :=
               bal_upsert (bal_upsert (wallet_balances s) userId fromAsset (- fromAmount))
                          userId toAsset creditAmount,
             wallet_ledger := wallet_ledger s @
               [\<lparr>l_user = userId, l_asset = fromAsset, l_chain = Some ''BSC'',
                 l_type = ''swap_out'', l_amount = fromAmount, l_ref = NullRef\<rparr>,
                \<lparr>l_user = userId, l_asset = toAsset, l_chain = Some ''BSC'',
                 l_type = ''swap_in'', l_amount = creditAmount, l_ref = NullRef\<rparr>]\<rparr>))"

section \<open>Wallet transfer\<close>

datatype transfer_kind = Crypto string | Bank bool

definition MIN_NETWORK_FEE_USDT :: rat where
  "MIN_NETWORK_FEE_USDT = 15 / 100"

definition MAX_NETWORK_FEE_USDT :: rat where
  "MAX_NETWORK_FEE_USDT = 1"

definition BANK_CONVERSION_FEE_PCT :: rat where
  "BANK_CONVERSION_FEE_PCT = 5 / 1000"

definition BANK_SEND_FEE_USDT :: rat where
  "BANK_SEND_FEE_USDT = 1"

text \<open>
  \<open>quoteCryptoTransfer\<close>: the gas fee in USDT comes from the chain and a price feed
  (the parameter \<open>gasFeeUsdt\<close>, markup included) and is clamped to the configured bounds.
\<close>

definition quoteCryptoTransfer :: "rat \<Rightarrow> rat \<Rightarrow> rat" where
  "quoteCryptoTransfer gasFeeUsdt amountUsdt =
     amountUsdt + max MIN_NETWORK_FEE_USDT (min MAX_NETWORK_FEE_USDT gasFeeUsdt)"

definition quoteBankTransfer :: "rat \<Rightarrow> rat" where
  "quoteBankTransfer amountUsdt =
     amountUsdt + amountUsdt * BANK_CONVERSION_FEE_PCT + BANK_SEND_FEE_USDT"

text \<open>
  \<open>POST /v1/wallet/transfer\<close>. \<open>Crypto addr\<close> carries the destination address,
  \<open>Bank filled\<close> whether the three bank fields are all present. The body schema
  requires a positive amount.
\<close>

definition wallet_transfer ::
    "db \<Rightarrow> nat \<Rightarrow> nat \<Rightarrow> transfer_kind \<Rightarrow> string \<Rightarrow> string \<Rightarrow> rat \<Rightarrow> rat \<Rightarrow> error + db" where
  "wallet_transfer s userId now kind assetNorm chainNorm amount gasFeeUsdt =
     (if amount \<le> 0 then Inl BAD_BODY
      else if assetNorm \<noteq> ''USDT'' then Inl ONLY_USDT_SUPPORTED
      else
        (case (case kind of
                 Crypto to_address \<Rightarrow>
                   if length to_address < 25 then Inl BAD_ADDRESS
                   else if chainNorm \<noteq> ''BSC'' then Inl UNSUPPORTED_CHAIN
                   else Inr (quoteCryptoTransfer gasFeeUsdt amount)
               | Bank filled \<Rightarrow>
                   if \<not> filled then Inl BANK_DETAILS_INCOMPLETE
                   else Inr (quoteBankTransfer amount)) of
           Inl e \<Rightarrow> Inl e
         | Inr totalDebit \<Rightarrow>
             if totalDebit \<le> 0 then Inl BAD_QUOTE
             else
               let currentBal = currentBalance (wallet_balances s) userId assetNorm
               in if currentBal < totalDebit then Inl INSUFFICIENT_FUNDS
                  else
                    let ledgerType = (case kind of Crypto a \<Rightarrow> ''transfer_out'' | Bank c \<Rightarrow> ''withdraw'');
                        s1 = s\<lparr>
                          wallet_balances := bal_upsert (wallet_balances s) userId assetNorm (- totalDebit),
                          wallet_ledger := wallet_ledger s @
                            [\<lparr>l_user = userId, l_asset = assetNorm, l_chain = Some chainNorm,
                              l_type = ledgerType, l_amount = - totalDebit, l_ref = NullRef\<rparr>]\<rparr>
                    in Inr (evaluateRewardCreditsForUser s1 userId now)))"

section \<open>Staking: opening a position\<close>

definition STAKE_UNIT_USDT :: rat where
  "STAKE_UNIT_USDT = 9"

definition DEFAULT_MULT :: rat where
  "DEFAULT_MULT = 3"

definition VPK_PER_USDT :: rat where
  "VPK_PER_USDT = 100"

definition STAKE_UNIT_VPK :: rat where
  "STAKE_UNIT_VPK = STAKE_UNIT_USDT * VPK_PER_USDT"

record stake_body =
  b_amount :: "rat option"
  b_units :: "rat option"
  b_cap_multiplier :: "rat option"

text \<open>\<open>units\<close> of the body when given, else the amount in VPK over the unit size, floored.\<close>

definition body_units :: "stake_body \<Rightarrow> (error + int)" where
  "body_units body =
     (case b_units body of
        Some u \<Rightarrow> Inr \<lfloor>u\<rfloor>
      | None \<Rightarrow> (case b_amount body of
                   Some amtVpk \<Rightarrow> Inr \<lfloor>amtVpk / STAKE_UNIT_VPK\<rfloor>
                 | None \<Rightarrow> Inl BAD_BODY))"

text \<open>
  The transaction of \<open>POST /positions\<close>. The new row's id is the insert id; rows are
  never deleted, so it is the table's length plus one.
\<close>

definition stake_open :: "db \<Rightarrow> nat \<Rightarrow> stake_body \<Rightarrow> error + db" where
  "stake_open s userId body =
     (let mult = (case b_cap_multiplier body of Some m \<Rightarrow> m | None \<Rightarrow> DEFAULT_MULT)
      in case body_units body of
           Inl e \<Rightarrow> Inl e
         | Inr units \<Rightarrow>
             if units < 1 then Inl MIN_900_VPK
             else
               let unitAmtUsdt = STAKE_UNIT_USDT;
                   stakeUsdtVal = of_int units * unitAmtUsdt;
                   stakeVpk = of_int units * STAKE_UNIT_VPK;
                   capTotalUsdt = stakeUsdtVal * mult;
                   B1 = bal_ensure (wallet_balances s) userId ''VPK'';
                   currentVpk = currentBalance B1 userId ''VPK''
               in if currentVpk < stakeVpk then Inl INSUFFICIENT_FUNDS
                  else
                    let posId = length (staking_positions s) + 1
                    in Inr (s\<lparr>
                      wallet_balances := bal_update B1 userId ''VPK'' (- stakeVpk),
                      staking_positions := staking_positions s @
                        [\<lparr>p_id = posId, p_user = userId, p_units = units,
                          p_unit_amount_usdt = unitAmtUsdt, p_amount_usdt = stakeUsdtVal,
                          p_cap_multiplier = mult, p_cap_usdt = capTotalUsdt,
                          p_credited_usdt = 0, p_status = ''active''\<rparr>],
                      wallet_ledger := wallet_ledger s @
                        [\<lparr>l_user = userId, l_asset = ''VPK'', l_chain = None,
                          l_type = ''stake_lock'', l_amount = stakeVpk, l_ref = NumRef posId\<rparr>]\<rparr>))"

section \<open>Deposits: the credit helper, the watcher and the sweeper\<close>

definition update_deposits ::
    "nat \<Rightarrow> (crypto_deposit \<Rightarrow> bool) \<Rightarrow> (crypto_deposit \<Rightarrow> crypto_deposit) \<Rightarrow> crypto_deposit list \<Rightarrow> crypto_deposit list" where
  "update_deposits i guard f D = map (\<lambda>d. if d_id d = i \<and> guard d then f d else d) D"

text \<open>The idempotency probe: a ledger row of type deposit whose ref_id is the deposit id.\<close>

definition deposit_row_of :: "nat \<Rightarrow> ledger_row \<Rightarrow> bool" where
  "deposit_row_of depositId l = (l_type l = ''deposit'' \<and> l_ref l = NumRef depositId)"

text \<open>
  \<open>creditDepositAndWebhook\<close> exists twice: in the server (manual and admin credit; the
  placeholder hash is \<open>MANUAL-<id>\<close>) and in the chain watcher (placeholder \<open>BSC-<id>\<close>,
  and the reward credits of the user are re-evaluated before the commit). A thrown error
  rolls the transaction back. The webhook and the sweep trigger run after the commit
  and touch none of the tables below.
\<close>

datatype credit_path = Server | Watcher

definition creditDepositAndWebhook ::
    "credit_path \<Rightarrow> db \<Rightarrow> nat \<Rightarrow> rat option \<Rightarrow> tx_hash option \<Rightarrow> nat \<Rightarrow> error + db" where
  "creditDepositAndWebhook path s depositId amount txHash now =
     (case find (\<lambda>d. d_id d = depositId) (crypto_deposits s) of
        None \<Rightarrow> Inl deposit_not_found
      | Some dep \<Rightarrow>
          if \<exists>l \<in> set (wallet_ledger s). deposit_row_of depositId l then Inr s
          else
            let amtNum = (case amount of Some a \<Rightarrow> a
                          | None \<Rightarrow> (case d_amount_received dep of Some a \<Rightarrow> a | None \<Rightarrow> 0))
            in if amtNum \<le> 0 then Inl invalid_amount
               else
                 let hash = (case txHash of Some h \<Rightarrow> h
                             | None \<Rightarrow> (case d_tx_hash dep of Some h \<Rightarrow> h
                                        | None \<Rightarrow> (case path of Server \<Rightarrow> MANUAL_TX depositId
                                                    | Watcher \<Rightarrow> BSC_TX depositId)));
                     s1 = s\<lparr>
                       wallet_balances := bal_upsert (wallet_balances s) (d_user dep) (d_asset dep) amtNum,
                       wallet_ledger := wallet_ledger s @
                         [\<lparr>l_user = d_user dep, l_asset = d_asset dep, l_chain = Some (d_chain dep),
                           l_type = ''deposit'', l_amount = amtNum, l_ref = NumRef depositId\<rparr>],
                       crypto_deposits := update_deposits depositId (\<lambda>d. True)
                         (\<lambda>d. d\<lparr>d_status := ''credited'',
                                d_amount_received := Some (case d_amount_received d of Some a \<Rightarrow> a | None \<Rightarrow> amtNum),
                                d_confirmations := max (d_confirmations d) (d_required_confirmations d),
                                d_tx_hash := Some (case d_tx_hash d of Some h \<Rightarrow> h | None \<Rightarrow> hash)\<rparr>)
                         (crypto_deposits s)\<rparr>
                 in Inr (case path of Server \<Rightarrow> s1
                         | Watcher \<Rightarrow> evaluateRewardCreditsForUser s1 (d_user dep) now))"

text \<open>
  One log of \<open>scanBatch\<close>: the progress update is its own statement (it writes status
  \<open>confirming\<close> whatever the row's status is), then the credit helper runs when the
  confirmations suffice. \<open>requiredConfs\<close> comes from the row as the scan read it.
\<close>

definition watcher_log :: "db \<Rightarrow> nat \<Rightarrow> nat \<Rightarrow> tx_hash \<Rightarrow> nat \<Rightarrow> rat \<Rightarrow> nat \<Rightarrow> db" where
  "watcher_log s depositId requiredConfs txHash confirmations humanAmount now =
     (if humanAmount \<le> 0 then s
      else
        let s1 = s\<lparr>crypto_deposits := update_deposits depositId (\<lambda>d. True)
                     (\<lambda>d. d\<lparr>d_tx_hash := Some (case d_tx_hash d of Some h \<Rightarrow> h | None \<Rightarrow> txHash),
                            d_confirmations := confirmations,
                            d_amount_received := Some (case d_amount_received d of Some a \<Rightarrow> a | None \<Rightarrow> humanAmount),
                            d_status := ''confirming''\<rparr>)
                     (crypto_deposits s)\<rparr>
        in if confirmations \<ge> requiredConfs then
             (case creditDepositAndWebhook Watcher s1 depositId (Some humanAmount) (Some txHash) now of
                Inr s2 \<Rightarrow> s2
              | Inl e \<Rightarrow> s1)
           else s1)"

text \<open>
  The sweeper. What the chain answers for one deposit is the parameter \<open>outcome\<close>: the
  derived address does not match, the address holds no token, gas is not ready, the
  sweep transaction was sent and then failed while waiting, or it was sent and mined.
  The statements run without a transaction, and an exception ends the work on the
  deposit only.
\<close>

datatype sweep_outcome = AddressMismatch | ZeroBalance | GasNotReady | TxSentFailed tx_hash | TxSentOk tx_hash

definition sweep_step :: "sweep_outcome \<Rightarrow> nat \<Rightarrow> db \<Rightarrow> db" where
  "sweep_step outcome depositId s =
     (case outcome of
        AddressMismatch \<Rightarrow> s
      | ZeroBalance \<Rightarrow>
          s\<lparr>crypto_deposits := update_deposits depositId (\<lambda>d. True)
               (\<lambda>d. d\<lparr>d_swept := True, d_status := ''swept''\<rparr>) (crypto_deposits s)\<rparr>
      | GasNotReady \<Rightarrow> s
      | TxSentFailed h \<Rightarrow>
          s\<lparr>crypto_deposits := update_deposits depositId (\<lambda>d. True)
               (\<lambda>d. d\<lparr>d_status := ''sweeping'', d_tx_hash := Some h\<rparr>) (crypto_deposits s)\<rparr>
      | TxSentOk h \<Rightarrow>
          s\<lparr>crypto_deposits := update_deposits depositId (\<lambda>d. True)
               (\<lambda>d. d\<lparr>d_status := ''swept'', d_swept := True, d_tx_hash := Some h\<rparr>) (crypto_deposits s)\<rparr>)"

text \<open>
  The body of the sweeper's loop for the row \<open>d\<close> as the SELECT read it. The credit is
  gated on the status alone: \<open>UPDATE ... SET status='credited' WHERE id=? AND status<>'credited'\<close>
  and, when that changed a row, the balance upsert and the ledger insert. A NULL
  \<open>amount_received\<close> makes the upsert fail, which ends the work on the deposit.
\<close>

definition sweeper_deposit :: "rat \<Rightarrow> sweep_outcome \<Rightarrow> crypto_deposit \<Rightarrow> db \<Rightarrow> db" where
  "sweeper_deposit MIN_DEPOSIT outcome d s =
     (let enoughConfs = (d_confirmations d \<ge> d_required_confirmations d);
          amtNum = (case d_amount_received d of Some a \<Rightarrow> a | None \<Rightarrow> 0);
          minOk = (if MIN_DEPOSIT \<le> 0 then True else amtNum \<ge> MIN_DEPOSIT)
      in if enoughConfs \<and> d_status d \<noteq> ''credited'' \<and> minOk then
           let changed = (\<exists>r \<in> set (crypto_deposits s). d_id r = d_id d \<and> d_status r \<noteq> ''credited'');
               s1 = s\<lparr>crypto_deposits := update_deposits (d_id d) (\<lambda>r. d_status r \<noteq> ''credited'')
                          (\<lambda>r. r\<lparr>d_status := ''credited''\<rparr>) (crypto_deposits s)\<rparr>
           in if changed then
                (case d_amount_received d of
                   None \<Rightarrow> s1
                 | Some amt \<Rightarrow>
                     sweep_step outcome (d_id d)
                       (s1\<lparr>wallet_balances := bal_upsert (wallet_balances s1) (d_user d) (d_asset d) amt,
                           wallet_ledger := wallet_ledger s1 @
                             [\<lparr>l_user = d_user d, l_asset = d_asset d, l_chain = Some (d_chain d),
                               l_type = ''deposit'', l_amount = amt, l_ref = NumRef (d_id d)\<rparr>]\<rparr>))
              else sweep_step outcome (d_id d) s1
         else if \<not> enoughConfs then s
         else if \<not> minOk then s
         else sweep_step outcome (d_id d) s)"

text \<open>The sweeper's SELECT (the table is kept in id order) and its run over the rows.\<close>

definition sweeper_select :: "db \<Rightarrow> crypto_deposit list" where
  "sweeper_select s =
     take 20 (filter (\<lambda>d. d_chain d = ''BSC'' \<and> d_asset d = ''USDT'' \<and>
                          (d_status d = ''confirming'' \<or> d_status d = ''confirmed'' \<or>
                           d_status d = ''credited'' \<or>
                           d_confirmations d \<ge> d_required_confirmations d) \<and>
                          d_swept d = False)
                     (crypto_deposits s))"

definition sweeper_run :: "rat \<Rightarrow> (nat \<Rightarrow> sweep_outcome) \<Rightarrow> db \<Rightarrow> db" where
  "sweeper_run MIN_DEPOSIT outcome_of s =
     fold (\<lambda>d. sweeper_deposit MIN_DEPOSIT (outcome_of (d_id d)) d) (sweeper_select s) s"

section \<open>Staking: the airdrop\<close>

definition AIRDROP_TRIGGER_UNITS :: int where
  "AIRDROP_TRIGGER_UNITS = 60"

definition AIRDROP_REWARD_UNITS :: nat where
  "AIRDROP_REWARD_UNITS = 6"

definition OLD_PICK :: nat where
  "OLD_PICK = 6"

definition NEW_PICK :: nat where
  "NEW_PICK = 4"

record ticket =
  position_id :: nat
  user_id :: nat

text \<open>
  \<open>pickWithoutReplacement\<close>. Each call of \<open>randi(bag.length)\<close> returns some index below
  the bag's length; the draws are the parameter \<open>ds\<close>, one natural per call, reduced
  modulo the length, so every outcome of the random source is some \<open>ds\<close>. The loop
  runs only with \<open>k < arr.length\<close>, so the bag is never empty when it draws.
\<close>

fun draw_loop :: "nat list \<Rightarrow> 'a list \<Rightarrow> nat \<Rightarrow> 'a list" where
  "draw_loop ds bag 0 = []"
| "draw_loop ds bag (Suc k) =
     (if bag = [] then []
      else
        let idx = (case ds of [] \<Rightarrow> 0 | d # ds' \<Rightarrow> d mod length bag)
        in bag ! idx # draw_loop (tl ds) (take idx bag @ drop (Suc idx) bag) k)"

definition pickWithoutReplacement :: "nat list \<Rightarrow> 'a list \<Rightarrow> nat \<Rightarrow> 'a list" where
  "pickWithoutReplacement ds arr k =
     (if k \<le> 0 \<or> length arr = 0 then []
      else if k \<ge> length arr then arr
      else draw_loop ds arr k)"

text \<open>\<open>Number(x || fallback)\<close> on a number: 0 (and NULL) take the fallback.\<close>

definition or_default :: "rat \<Rightarrow> rat \<Rightarrow> rat" where
  "or_default x fallback = (if x = 0 then fallback else x)"

definition perUnitCap :: "staking_position \<Rightarrow> rat" where
  "perUnitCap r = or_default (p_unit_amount_usdt r) STAKE_UNIT_USDT * or_default (p_cap_multiplier r) DEFAULT_MULT"

definition unconsumedUnits :: "staking_position \<Rightarrow> int" where
  "unconsumedUnits r = max 0 (min (p_units r) \<lfloor>(p_cap_usdt r - p_credited_usdt r) / perUnitCap r\<rfloor>)"

text \<open>
  The overlap of a position's unit range \<open>[start, end]\<close> with the units before the
  round's window, and with the window \<open>(prevUnits, prevUnits + AIRDROP_TRIGGER_UNITS]\<close>.
\<close>

definition oldOverlap_of :: "int \<Rightarrow> int \<Rightarrow> int \<Rightarrow> int" where
  "oldOverlap_of start end prevUnits = max 0 (min end prevUnits - start + 1)"

definition newOverlap_of :: "int \<Rightarrow> int \<Rightarrow> int \<Rightarrow> int" where
  "newOverlap_of start end prevUnits =
     (let nextUnitsUpper = prevUnits + AIRDROP_TRIGGER_UNITS
      in max 0 (min end nextUnitsUpper - max start (prevUnits + 1) + 1))"

text \<open>
  \<open>buildCohortsConsumed\<close>: the rows in creation order (the order of the table), with
  the running \<open>globalIdx\<close>.
\<close>

fun cohorts :: "int \<Rightarrow> int \<Rightarrow> staking_position list \<Rightarrow> ticket list \<times> ticket list" where
  "cohorts prevUnits globalIdx [] = ([], [])"
| "cohorts prevUnits globalIdx (r # rows) =
     (let units = p_units r
      in if units \<le> 0 then cohorts prevUnits globalIdx rows
         else
           let start = globalIdx + 1;
               end = globalIdx + units;
               (oldTickets, newTickets) = cohorts prevUnits end rows
           in if p_status r \<noteq> ''active'' then (oldTickets, newTickets)
              else if unconsumedUnits r \<le> 0 then (oldTickets, newTickets)
              else
                let oldOverlap = oldOverlap_of start end prevUnits;
                    newOverlap = newOverlap_of start end prevUnits
                in if oldOverlap + newOverlap \<le> 0 then (oldTickets, newTickets)
                   else
                     let oldShare = min oldOverlap (unconsumedUnits r);
                         newShare = min newOverlap (unconsumedUnits r - oldShare);
                         t = \<lparr>position_id = p_id r, user_id = p_user r\<rparr>
                     in (replicate (nat oldShare) t @ oldTickets,
                         replicate (nat newShare) t @ newTickets))"

definition buildCohortsConsumed :: "db \<Rightarrow> int \<Rightarrow> ticket list \<times> ticket list" where
  "buildCohortsConsumed s prevUnits = cohorts prevUnits 0 (staking_positions s)"

text \<open>
  The winner selection of a round: (oldWinners, newWinners); the payouts run over
  \<open>oldWinners.concat(newWinners)\<close>.
\<close>

definition select_winners ::
    "ticket list \<Rightarrow> ticket list \<Rightarrow> nat list \<Rightarrow> nat list \<Rightarrow> ticket list \<times> ticket list" where
  "select_winners oldTickets newTickets dsNew dsOld =
     (let maxWinners = AIRDROP_REWARD_UNITS;
          newPick = min NEW_PICK (min maxWinners (length newTickets));
          newWinners = (if newPick > 0 then pickWithoutReplacement dsNew newTickets newPick else []);
          newWinnerUserIds = map user_id newWinners;
          oldFiltered = (if newWinnerUserIds \<noteq> []
                         then filter (\<lambda>t. user_id t \<notin> set newWinnerUserIds) oldTickets
                         else oldTickets);
          remaining = maxWinners - length newWinners;
          oldPick = min OLD_PICK (min remaining (length oldFiltered));
          oldWinners = (if oldPick > 0 then pickWithoutReplacement dsOld oldFiltered oldPick else [])
      in (oldWinners, newWinners))"

text \<open>
  The UPDATE of the position after a payout sets two columns,
  \<open>credited_usdt = LEAST(cap_usdt, credited_usdt + ?)\<close> and then
  \<open>status = CASE WHEN credited_usdt + ? >= cap_usdt THEN 'completed' ELSE 'active' END\<close>.
  MySQL evaluates the assignments of a single-table UPDATE from left to right, so the
  CASE reads the credited value just written; standard SQL reads the row as it was.
  The model takes the order as a parameter and the results below hold for both.
\<close>

datatype assignment_order = LeftToRight | Simultaneous

definition update_position :: "assignment_order \<Rightarrow> rat \<Rightarrow> staking_position \<Rightarrow> staking_position" where
  "update_position ord creditAmt p =
     (let credited = min (p_cap_usdt p) (p_credited_usdt p + creditAmt);
          seen = (case ord of LeftToRight \<Rightarrow> credited | Simultaneous \<Rightarrow> p_credited_usdt p)
      in p\<lparr>p_credited_usdt := credited,
           p_status := (if seen + creditAmt \<ge> p_cap_usdt p then ''completed'' else ''active'')\<rparr>)"

text \<open>What a winning ticket is paid, computed from the position row as the payout reads it.\<close>

definition creditAmt_of :: "staking_position \<Rightarrow> rat" where
  "creditAmt_of pos =
     (let capLeft = max 0 (p_cap_usdt pos - p_credited_usdt pos);
          perWin = perUnitCap pos
      in min perWin capLeft)"

text \<open>
  The payout of one winning ticket inside a round. The statistics kept for the
  referral calls that follow the commit are not part of the tables.
\<close>

definition process_winner :: "assignment_order \<Rightarrow> nat \<Rightarrow> ticket \<Rightarrow> db \<Rightarrow> db" where
  "process_winner ord airdropId w s =
     (let s0 = s\<lparr>wallet_balances := bal_ensure (wallet_balances s) (user_id w) ''USDT''\<rparr>
      in case find (\<lambda>p. p_id p = position_id w) (staking_positions s0) of
           None \<Rightarrow> s0
         | Some pos \<Rightarrow>
             if p_status pos \<noteq> ''active'' then s0
             else
               let creditAmt = creditAmt_of pos
               in if creditAmt \<le> 0 then s0
                  else
                    let recipientId = length (staking_airdrop_recipients s0) + 1
                    in s0\<lparr>
                      wallet_balances := bal_update (wallet_balances s0) (user_id w) ''USDT'' creditAmt,
                      staking_airdrop_recipients := staking_airdrop_recipients s0 @
                        [\<lparr>r_airdrop_id = airdropId, r_user = user_id w,
                          r_position = position_id w, r_amount_usdt = creditAmt\<rparr>],
                      wallet_ledger := wallet_ledger s0 @
                        [\<lparr>l_user = user_id w, l_asset = ''USDT'', l_chain = None,
                          l_type = ''transfer_in'', l_amount = creditAmt, l_ref = NumRef recipientId\<rparr>],
                      staking_positions :=
                        map (\<lambda>p. if p_id p = position_id w then update_position ord creditAmt p else p)
                            (staking_positions s0)\<rparr>)"



section \<open>Referral commissions\<close>

record ref_config =
  REF_COMPANY_USER_ID :: nat
  REF_CONVERSION_RATE :: rat
  REF_STAKING_RATE :: rat

definition LVL1_SHARE :: rat where
  "LVL1_SHARE = 45 / 10"

definition LVL2_SHARE :: rat where
  "LVL2_SHARE = 25 / 10"

definition LVL3_SHARE :: rat where
  "LVL3_SHARE = 15 / 10"

definition COMPANY_SHARE :: rat where
  "COMPANY_SHARE = 15 / 10"

definition isValidType :: "string \<Rightarrow> bool" where
  "isValidType t = (t = ''conversion'' \<or> t = ''staking_reward'')"

definition isValidAsset :: "string \<Rightarrow> bool" where
  "isValidAsset a = (a = ''PHP'' \<or> a = ''USDT'')"

text \<open>\<open>x || null\<close> on an id column: NULL and 0 are both no id.\<close>

definition or_null :: "nat option \<Rightarrow> nat option" where
  "or_null x = (case x of None \<Rightarrow> None | Some i \<Rightarrow> if i = 0 then None else Some i)"

definition referrer_of :: "user_row list \<Rightarrow> nat \<Rightarrow> nat option" where
  "referrer_of U i = (case find (\<lambda>u. u_id u = i) U of None \<Rightarrow> None | Some u \<Rightarrow> u_referrer_id u)"

text \<open>The upline query: the referee joined twice to its referrers.\<close>

definition upline :: "user_row list \<Rightarrow> nat \<Rightarrow> nat option \<times> nat option \<times> nat option" where
  "upline U refereeId =
     (let lvl1 = referrer_of U refereeId;
          lvl2 = (case lvl1 of None \<Rightarrow> None | Some i \<Rightarrow> referrer_of U i);
          lvl3 = (case lvl2 of None \<Rightarrow> None | Some i \<Rightarrow> referrer_of U i)
      in (or_null lvl1, or_null lvl2, or_null lvl3))"

text \<open>\<open>Math.round\<close> rounds half up.\<close>

definition js_round :: "rat \<Rightarrow> int" where
  "js_round x = \<lfloor>x + 1 / 2\<rfloor>"

definition calcShare :: "string \<Rightarrow> rat \<Rightarrow> rat \<Rightarrow> rat \<Rightarrow> rat" where
  "calcShare a pool totalEffectiveWeight weight =
     (let raw = pool * (weight / totalEffectiveWeight)
      in if a = ''PHP'' then rat_of_int (js_round (raw * 100)) / 100
         else rat_of_int (js_round (raw * 10 ^ 8)) / 10 ^ 8)"

text \<open>The effective weights: (lvl1, lvl2, lvl3, company), 0 for an absent recipient.\<close>

definition effective_weights ::
    "nat option \<Rightarrow> nat option \<Rightarrow> nat option \<Rightarrow> nat option \<Rightarrow> rat \<times> rat \<times> rat \<times> rat" where
  "effective_weights lvl1Id lvl2Id lvl3Id companyId =
     (let w1 = (if lvl1Id \<noteq> None then LVL1_SHARE else 0);
          w2 = (if lvl2Id \<noteq> None then LVL2_SHARE else 0);
          w3 = (if lvl3Id \<noteq> None then LVL3_SHARE else 0);
          coW = (if companyId \<noteq> None
                 then COMPANY_SHARE + (if lvl1Id = None then LVL1_SHARE else 0)
                                    + (if lvl2Id = None then LVL2_SHARE else 0)
                                    + (if lvl3Id = None then LVL3_SHARE else 0)
                 else 0)
      in (w1, w2, w3, coW))"

text \<open>One beneficiary of the \<open>events\<close> array: the recipient, the commission, the level.\<close>

type_synonym beneficiary = "nat \<times> rat \<times> string"

definition level_event :: "string \<Rightarrow> rat \<Rightarrow> rat \<Rightarrow> nat option \<Rightarrow> rat \<Rightarrow> string \<Rightarrow> beneficiary list" where
  "level_event a pool totalEffectiveWeight recipient weight label =
     (case recipient of
        None \<Rightarrow> []
      | Some i \<Rightarrow>
          if weight = 0 then []
          else let c = calcShare a pool totalEffectiveWeight weight
               in if c > 0 then [(i, c, label)] else [])"

text \<open>
  \<open>awardReferral\<close> up to the \<open>events\<close> array. The type and the asset arrive trimmed (and
  the asset upper-cased); an asset that is not valid is replaced by USDT.
\<close>

definition pool_of :: "ref_config \<Rightarrow> string \<Rightarrow> rat \<Rightarrow> rat" where
  "pool_of cfg t amt = amt * (if t = ''conversion'' then REF_CONVERSION_RATE cfg else REF_STAKING_RATE cfg)"

definition commission_events ::
    "ref_config \<Rightarrow> user_row list \<Rightarrow> nat \<Rightarrow> string \<Rightarrow> string \<Rightarrow> rat \<Rightarrow> error + beneficiary list" where
  "commission_events cfg U refereeId t asset amt =
     (let a = (if isValidAsset asset then asset else ''USDT'')
      in if \<not> isValidType t \<or> amt \<le> 0 then Inl BAD_INPUT
         else
           let (lvl1Id, lvl2Id, lvl3Id) = upline U refereeId;
               companyId = (if REF_COMPANY_USER_ID cfg > 0 then Some (REF_COMPANY_USER_ID cfg) else None)
           in if lvl1Id = None \<and> lvl2Id = None \<and> lvl3Id = None \<and> companyId = None
              then Inl NO_RECIPIENTS
              else
                let totalRate = (if t = ''conversion'' then REF_CONVERSION_RATE cfg else REF_STAKING_RATE cfg)
                in if totalRate \<le> 0 then Inl NO_RATE
                   else
                     let pool = amt * totalRate
                     in if pool \<le> 0 then Inl NO_COMMISSION
                        else
                          let (w1, w2, w3, coW) = effective_weights lvl1Id lvl2Id lvl3Id companyId;
                              totalEffectiveWeight = w1 + w2 + w3 + coW
                          in if totalEffectiveWeight \<le> 0 then Inl NO_EFFECTIVE_WEIGHTS
                             else
                               let events =
                                     level_event a pool totalEffectiveWeight lvl1Id w1 ''1'' @
                                     level_event a pool totalEffectiveWeight lvl2Id w2 ''2'' @
                                     level_event a pool totalEffectiveWeight lvl3Id w3 ''3'' @
                                     level_event a pool totalEffectiveWeight companyId coW ''company''
                               in if events = [] then Inl NO_COMMISSION_EVENTS else Inr events)"

text \<open>The rows of one trigger: \<open>WHERE referee_id=? AND type=? AND source_ref=?\<close>.\<close>

definition event_rows :: "referral_event list \<Rightarrow> nat \<Rightarrow> string \<Rightarrow> string \<Rightarrow> referral_event list" where
  "event_rows T refereeId t src =
     filter (\<lambda>e. e_referee e = refereeId \<and> e_type e = t \<and> e_source_ref e = src) T"

text \<open>
  Modelled from the spec: the unique key of \<open>referral_events\<close>, one row per
  (referee_id, referrer_id, type, source_ref); the table's declaration is not among the
  sources. \<open>INSERT IGNORE\<close> drops a row that collides with it.
\<close>

definition insert_ignore :: "referral_event \<Rightarrow> referral_event list \<Rightarrow> referral_event list" where
  "insert_ignore row T =
     (if \<exists>e \<in> set T. e_referee e = e_referee row \<and> e_referrer e = e_referrer row \<and>
                       e_type e = e_type row \<and> e_source_ref e = e_source_ref row
      then T else T @ [row])"

text \<open>
  \<open>awardReferral\<close>: a beneficiary that already has a row for the trigger is skipped, the
  others are inserted. \<open>src\<close> is the source reference after the fallbacks.
\<close>

definition awardReferral ::
    "ref_config \<Rightarrow> db \<Rightarrow> nat \<Rightarrow> string \<Rightarrow> string \<Rightarrow> rat \<Rightarrow> string \<Rightarrow> error + db" where
  "awardReferral cfg s refereeId t asset amt src =
     (case commission_events cfg (users s) refereeId t asset amt of
        Inl e \<Rightarrow> Inl e
      | Inr events \<Rightarrow>
          let a = (if isValidAsset asset then asset else ''USDT'');
              existingSet = map e_referrer (event_rows (referral_events s) refereeId t src)
          in Inr (s\<lparr>referral_events :=
                fold (\<lambda>(referrerId, commission, label) T.
                        if referrerId \<in> set existingSet then T
                        else insert_ignore
                          \<lparr>e_referee = refereeId, e_referrer = referrerId, e_type = t, e_asset = a,
                           e_base_amount = amt, e_commission_amount = commission,
                           e_status = ''pending'', e_source_ref = src, e_level = label,
                           e_claim_id = None\<rparr> T)
                     events (referral_events s)\<rparr>))"

text \<open>\<open>POST /use-code\<close>, with the code already resolved to its owner (\<open>None\<close>: no such code).\<close>

definition use_code :: "db \<Rightarrow> nat \<Rightarrow> nat option \<Rightarrow> error + db" where
  "use_code s me owner =
     (case find (\<lambda>u. u_id u = me) (users s) of
        None \<Rightarrow> Inl NO_USER
      | Some m \<Rightarrow>
          if or_null (u_referrer_id m) \<noteq> None then Inl ALREADY_ATTACHED
          else (case owner of
                  None \<Rightarrow> Inl NOT_FOUND
                | Some r \<Rightarrow>
                    if r = me then Inl SELF_REFERRAL
                    else Inr (s\<lparr>users := map (\<lambda>u. if u_id u = me then u\<lparr>u_referrer_id := Some r\<rparr> else u)
                                             (users s)\<rparr>)))"

text \<open>\<open>POST /claim\<close> of the referral router: all pending commissions of the caller.\<close>

definition pending_total :: "referral_event list \<Rightarrow> nat \<Rightarrow> string \<Rightarrow> rat" where
  "pending_total T referrerId a =
     sum_list (map e_commission_amount
       (filter (\<lambda>e. e_referrer e = referrerId \<and> e_status e = ''pending'' \<and> e_asset e = a) T))"

definition referral_claim :: "db \<Rightarrow> nat \<Rightarrow> rat \<Rightarrow> rat \<Rightarrow> rat \<Rightarrow> error + db" where
  "referral_claim s userId USDT_PHP_RATE minPHP minUSDT =
     (let pendingPHP = pending_total (referral_events s) userId ''PHP'';
          pendingUSDT = pending_total (referral_events s) userId ''USDT''
      in if pendingPHP < minPHP \<and> pendingUSDT < minUSDT then Inl MIN_NOT_MET
         else
           let addUsdt = pendingUSDT + (if pendingPHP > 0 then pendingPHP / USDT_PHP_RATE else 0);
               claimId = length (referral_claims s) + 1
           in Inr (s\<lparr>
                referral_claims := referral_claims s @ [\<lparr>rc_referrer = userId, rc_amount = addUsdt\<rparr>],
                referral_events :=
                  map (\<lambda>e. if e_referrer e = userId \<and> e_status e = ''pending''
                            then e\<lparr>e_status := ''credited'', e_claim_id := Some claimId\<rparr> else e)
                      (referral_events s),
                wallet_balances := bal_upsert (wallet_balances s) userId ''USDT'' addUsdt,
                wallet_ledger := wallet_ledger s @
                  [\<lparr>l_user = userId, l_asset = ''USDT'', l_chain = None,
                    l_type = ''referral_bonus'', l_amount = addUsdt, l_ref = NumRef claimId\<rparr>]\<rparr>))"

section \<open>Reward credits: the claim\<close>

datatype claim_response = Failed error | Claimed rat | AlreadyClaimed rat

text \<open>The replay probe: the new ref_id format or the legacy numeric one, for this user.\<close>

definition claim_row_of :: "nat \<Rightarrow> nat \<Rightarrow> ledger_row \<Rightarrow> bool" where
  "claim_row_of userId creditId l =
     (l_user l = userId \<and> l_type l = ''reward_credit'' \<and>
      (l_ref l = RewardCreditRef creditId \<or> l_ref l = NumRef creditId))"

text \<open>
  \<open>claimCredit\<close>: the response and the state after the transaction. The evaluation
  pass runs inside the transaction, so a rollback undoes it too.
\<close>

definition claimCredit :: "db \<Rightarrow> nat \<Rightarrow> nat \<Rightarrow> nat \<Rightarrow> claim_response \<times> db" where
  "claimCredit s userId creditId now =
     (if userId = 0 then (Failed NO_TOKEN, s)
      else if creditId = 0 then (Failed BAD_CREDIT_ID, s)
      else
        let s1 = evaluateRewardCreditsForUser s userId now
        in case find (\<lambda>c. c_id c = creditId) (reward_credits s1) of
             None \<Rightarrow> (Failed NOT_FOUND, s)
           | Some c \<Rightarrow>
               if c_user c \<noteq> userId then (Failed NOT_FOUND, s)
               else if (case c_expires_at c of None \<Rightarrow> False | Some e \<Rightarrow> e \<le> now) then
                 (Failed EXPIRED,
                  s1\<lparr>reward_credits := update_credits creditId (\<lambda>r. True)
                        (\<lambda>r. r\<lparr>c_status := ''expired''\<rparr>) (reward_credits s1)\<rparr>)
               else if c_status c = ''claimed'' then (AlreadyClaimed (c_amount_usdt c), s)
               else if c_status c \<noteq> ''claimable'' then (Failed NOT_CLAIMABLE, s)
               else
                 let amt = c_amount_usdt c
                 in if amt \<le> 0 then (Failed BAD_AMOUNT, s)
                    else if \<exists>l \<in> set (wallet_ledger s1). claim_row_of userId creditId l then
                      (AlreadyClaimed amt,
                       s1\<lparr>reward_credits := update_credits creditId (\<lambda>r. True)
                             (\<lambda>r. r\<lparr>c_status := ''claimed'',
                                    c_claimed_at := Some (case c_claimed_at r of Some t \<Rightarrow> t | None \<Rightarrow> now)\<rparr>)
                             (reward_credits s1)\<rparr>)
                    else
                      (Claimed amt,
                       s1\<lparr>wallet_balances := bal_upsert (wallet_balances s1) userId ''USDT'' amt,
                          wallet_ledger := wallet_ledger s1 @
                            [\<lparr>l_user = userId, l_asset = ''USDT'', l_chain = Some ''SYSTEM'',
                              l_type = ''reward_credit'', l_amount = amt,
                              l_ref = RewardCreditRef creditId\<rparr>],
                          reward_credits := update_credits creditId (\<lambda>r. c_status r = ''claimable'')
                            (\<lambda>r. r\<lparr>c_status := ''claimed'', c_claimed_at := Some now\<rparr>)
                            (reward_credits s1)\<rparr>))"

section \<open>Sequences of balance-mutating operations\<close>

text \<open>
  The operations that write a balance, with what each call is given. A call that fails
  is rolled back and leaves the state as it was.
\<close>

datatype operation =
    Deposit_credit credit_path nat "rat option" "tx_hash option"
  | Sweeper_credit rat sweep_outcome crypto_deposit
  | Stake_open nat stake_body
  | Airdrop_payout assignment_order nat ticket
  | Referral_claim nat rat rat rat
  | Reward_claim nat nat
  | Swap nat string string rat
  | Transfer nat transfer_kind string string rat rat

definition committed :: "db \<Rightarrow> error + db \<Rightarrow> db" where
  "committed s r = (case r of Inl e \<Rightarrow> s | Inr s' \<Rightarrow> s')"

fun apply_operation :: "nat \<Rightarrow> operation \<Rightarrow> db \<Rightarrow> db" where
  "apply_operation now (Deposit_credit path depositId amount txHash) s =
     committed s (creditDepositAndWebhook path s depositId amount txHash now)"
| "apply_operation now (Sweeper_credit MIN_DEPOSIT outcome d) s = sweeper_deposit MIN_DEPOSIT outcome d s"
| "apply_operation now (Stake_open userId body) s = committed s (stake_open s userId body)"
| "apply_operation now (Airdrop_payout ord airdropId w) s = process_winner ord airdropId w s"
| "apply_operation now (Referral_claim userId rate minPHP minUSDT) s =
     committed s (referral_claim s userId rate minPHP minUSDT)"
| "apply_operation now (Reward_claim userId creditId) s = snd (claimCredit s userId creditId now)"
| "apply_operation now (Swap userId fromAsset toAsset amount) s =
     committed s (wallet_swap s userId fromAsset toAsset amount)"
| "apply_operation now (Transfer userId kind assetNorm chainNorm amount gasFeeUsdt) s =
     committed s (wallet_transfer s userId now kind assetNorm chainNorm amount gasFeeUsdt)"

fun is_transfer :: "operation \<Rightarrow> bool" where
  "is_transfer (Transfer userId kind assetNorm chainNorm amount gasFeeUsdt) = True"
| "is_transfer other = False"

text \<open>The rows an operation appended to a ledger that only grows.\<close>

definition appended_rows :: "db \<Rightarrow> db \<Rightarrow> ledger_row list" where
  "appended_rows s s' = drop (length (wallet_ledger s)) (wallet_ledger s')"

section \<open>Example states\<close>

definition empty_db :: db where
  "empty_db = \<lparr>wallet_balances = Map.empty, wallet_ledger = [], staking_positions = [],
     staking_airdrops = [], staking_airdrop_recipients = [], crypto_deposits = [],
     reward_credits = [], users = [], referral_events = [], referral_claims = []\<rparr>"

text \<open>User 1 holds 100 USDT from one credited deposit.\<close>

definition funded_db :: db where
  "funded_db = empty_db\<lparr>
     wallet_balances := [(1, ''USDT'') \<mapsto> 100],
     wallet_ledger := [\<lparr>l_user = 1, l_asset = ''USDT'', l_chain = Some ''BSC'',
                        l_type = ''deposit'', l_amount = 100, l_ref = NumRef 1\<rparr>]\<rparr>"

text \<open>User 1 holds 2000 VPK.\<close>

definition vpk_db :: db where
  "vpk_db = empty_db\<lparr>
     wallet_balances := [(1, ''VPK'') \<mapsto> 2000],
     wallet_ledger := [\<lparr>l_user = 1, l_asset = ''VPK'', l_chain = Some ''BSC'',
                        l_type = ''swap_in'', l_amount = 2000, l_ref = NullRef\<rparr>]\<rparr>"

text \<open>The balance a handler leaves behind, when it commits.\<close>

definition balance_after :: "error + db \<Rightarrow> nat \<Rightarrow> string \<Rightarrow> rat option" where
  "balance_after r u a = (case r of Inl e \<Rightarrow> None | Inr s' \<Rightarrow> Some (currentBalance (wallet_balances s') u a))"

text \<open>
  Deposit 1 of user 7: 50 USDT received, 12 of 12 confirmations, not yet credited.
\<close>

definition confirmed_deposit_db :: db where
  "confirmed_deposit_db = empty_db\<lparr>
     crypto_deposits := [\<lparr>d_id = 1, d_user = 7, d_chain = ''BSC'', d_asset = ''USDT'',
        d_source = None, d_amount_received = Some 50, d_confirmations = 12,
        d_required_confirmations = 12, d_status = ''confirming'', d_tx_hash = None,
        d_swept = False\<rparr>]\<rparr>"

text \<open>How many ledger rows of type deposit carry the deposit's id.\<close>

definition deposit_rows :: "db \<Rightarrow> nat \<Rightarrow> nat" where
  "deposit_rows s depositId = length (filter (deposit_row_of depositId) (wallet_ledger s))"

text \<open>The ticket a position contributes.\<close>

definition ticket_of :: "staking_position \<Rightarrow> ticket" where
  "ticket_of r = \<lparr>position_id = p_id r, user_id = p_user r\<rparr>"

text \<open>
  Two active positions with the default terms: position 1 of user 1 with 2 units
  (cap 54), position 2 of user 2 with 5 units (cap 135), nothing credited yet.
\<close>

definition two_positions_db :: db where
  "two_positions_db = empty_db\<lparr>
     staking_positions :=
       [\<lparr>p_id = 1, p_user = 1, p_units = 2, p_unit_amount_usdt = 9, p_amount_usdt = 18,
         p_cap_multiplier = 3, p_cap_usdt = 54, p_credited_usdt = 0, p_status = ''active''\<rparr>,
        \<lparr>p_id = 2, p_user = 2, p_units = 5, p_unit_amount_usdt = 9, p_amount_usdt = 45,
         p_cap_multiplier = 3, p_cap_usdt = 135, p_credited_usdt = 0, p_status = ''active''\<rparr>]\<rparr>"

definition ticket1 :: ticket where
  "ticket1 = \<lparr>position_id = 1, user_id = 1\<rparr>"

definition ticket2 :: ticket where
  "ticket2 = \<lparr>position_id = 2, user_id = 2\<rparr>"



text \<open>A sequence of payouts: each a ticket with the airdrop round it was drawn in.\<close>

definition run_payouts :: "assignment_order \<Rightarrow> (nat \<times> ticket) list \<Rightarrow> db \<Rightarrow> db" where
  "run_payouts ord ws s = fold (\<lambda>(airdropId, w). process_winner ord airdropId w) ws s"

text \<open>
  The evaluation pass in the words of the specification, row by row: a credit of the
  user that is locked or claimable and not expired gets a fresh progress snapshot and
  is claimable exactly when its deposit condition and its qualified-referral condition
  both hold (locked otherwise); every other row stays as it is.
\<close>

definition conditions_hold :: "db \<Rightarrow> nat \<Rightarrow> reward_credit \<Rightarrow> bool" where
  "conditions_hold s userId c = (depositOk s userId (c_conditions c) \<and> refOk s userId (c_conditions c))"

definition evaluated_row :: "db \<Rightarrow> nat \<Rightarrow> nat \<Rightarrow> reward_credit \<Rightarrow> reward_credit" where
  "evaluated_row s userId now c =
     (if \<not> evaluable userId now c then c
      else if conditions_hold s userId c then
        c\<lparr>c_status := ''claimable'',
          c_claimable_at := (if c_status c = ''claimable'' then c_claimable_at c else Some now),
          c_progress := Some (make_progress s userId (c_conditions c) now)\<rparr>
      else
        c\<lparr>c_status := ''locked'',
          c_claimable_at := (if c_status c = ''claimable'' then None else c_claimable_at c),
          c_progress := Some (make_progress s userId (c_conditions c) now)\<rparr>)"

text \<open>What the loop body for the credit \<open>c\<close> (as the SELECT read it) does to a row \<open>r\<close>.\<close>

definition row_step :: "db \<Rightarrow> nat \<Rightarrow> nat \<Rightarrow> reward_credit \<Rightarrow> reward_credit \<Rightarrow> reward_credit" where
  "row_step s userId now c r =
     (let pr = make_progress s userId (c_conditions c) now
      in if c_id r \<noteq> c_id c then r
         else if conditions_hold s userId c then
           (if c_status c \<noteq> ''claimable'' then
              (if c_status r = ''locked'' \<or> c_status r = ''claimable''
               then r\<lparr>c_status := ''claimable'', c_claimable_at := Some now, c_progress := Some pr\<rparr>
               else r)
            else (if c_status r = ''claimable'' then r\<lparr>c_progress := Some pr\<rparr> else r))
         else
           (if c_status c = ''claimable'' then
              (if c_status r = ''claimable''
               then r\<lparr>c_status := ''locked'', c_claimable_at := None, c_progress := Some pr\<rparr>
               else r)
            else (if c_status r = ''locked'' then r\<lparr>c_progress := Some pr\<rparr> else r)))"




text \<open>Whether a credit has expired at a time, as the claim checks it.\<close>

definition expired_at :: "nat \<Rightarrow> reward_credit \<Rightarrow> bool" where
  "expired_at now c = (case c_expires_at c of None \<Rightarrow> False | Some e \<Rightarrow> e \<le> now)"



text \<open>
  The tolerance of a distribution over at most four beneficiaries, each rounded to the
  asset's precision: four times half a unit of the last decimal place.
\<close>

definition rounding_tolerance :: "string \<Rightarrow> rat" where
  "rounding_tolerance a = (if a = ''PHP'' then 4 * (1 / 2) / 100 else 4 * (1 / 2) / 10 ^ 8)"

definition normal_asset :: "string \<Rightarrow> string" where
  "normal_asset asset = (if isValidAsset asset then asset else ''USDT'')"

text \<open>The sum of the commissions of a list of beneficiaries, and of the rows of a trigger.\<close>

definition commission_sum :: "beneficiary list \<Rightarrow> rat" where
  "commission_sum events = sum_list (map (\<lambda>(referrerId, commission, label). commission) events)"

definition event_total :: "error + db \<Rightarrow> nat \<Rightarrow> string \<Rightarrow> string \<Rightarrow> rat option" where
  "event_total r refereeId t src =
     (case r of
        Inl e \<Rightarrow> None
      | Inr s \<Rightarrow> Some (sum_list (map e_commission_amount (event_rows (referral_events s) refereeId t src))))"

text \<open>Running a handler on the state another one committed.\<close>

definition and_then :: "error + db \<Rightarrow> (db \<Rightarrow> error + db) \<Rightarrow> error + db" where
  "and_then r f = (case r of Inl e \<Rightarrow> Inl e | Inr s \<Rightarrow> f s)"

text \<open>
  The company recipient is user 9, with the default rates. User 1 was referred by
  user 2; users 2 and 3 have no referrer. An airdrop win of user 1 with base amount 100
  is awarded (pool 10); then user 2 attaches to user 3's code; then the same award is
  retried.
\<close>

definition company_cfg :: ref_config where
  "company_cfg = \<lparr>REF_COMPANY_USER_ID = 9, REF_CONVERSION_RATE = 5 / 1000, REF_STAKING_RATE = 10 / 100\<rparr>"

definition chain_db :: db where
  "chain_db = empty_db\<lparr>
     users := [\<lparr>u_id = 1, u_referrer_id = Some 2\<rparr>, \<lparr>u_id = 2, u_referrer_id = None\<rparr>,
               \<lparr>u_id = 3, u_referrer_id = None\<rparr>, \<lparr>u_id = 9, u_referrer_id = None\<rparr>]\<rparr>"

definition first_award :: "error + db" where
  "first_award = awardReferral company_cfg chain_db 1 ''staking_reward'' ''USDT'' 100 ''airdrop:1''"

definition attach_user2 :: "db \<Rightarrow> error + db" where
  "attach_user2 s = use_code s 2 (Some 3)"

definition retry_award :: "db \<Rightarrow> error + db" where
  "retry_award s = awardReferral company_cfg s 1 ''staking_reward'' ''USDT'' 100 ''airdrop:1''"

definition retry_after_attach :: "error + db" where
  "retry_after_attach = and_then (and_then first_award attach_user2) retry_award"

section \<open>Properties of the wallet\<close>

lemma wallet_ledger_evaluate [simp]:
  "wallet_ledger (evaluateRewardCreditsForUser s u now) = wallet_ledger s"
  by (simp add: evaluateRewardCreditsForUser_def Let_def)

lemma wallet_balances_evaluate [simp]:
  "wallet_balances (evaluateRewardCreditsForUser s u now) = wallet_balances s"
  by (simp add: evaluateRewardCreditsForUser_def Let_def)

lemma currentBalance_upsert:
  "currentBalance (bal_upsert B u a x) u' a' =
     (if u' = u \<and> a' = a then currentBalance B u a + x else currentBalance B u' a')"
  by (simp add: currentBalance_def bal_upsert_def split: option.splits)

lemma currentBalance_ensure [simp]:
  "currentBalance (bal_ensure B u a) u' a' = currentBalance B u' a'"
  by (simp add: currentBalance_def bal_ensure_def split: option.splits)

lemma currentBalance_update_ensure:
  "currentBalance (bal_update (bal_ensure B u a) u a x) u' a' =
     (if u' = u \<and> a' = a then currentBalance B u a + x else currentBalance B u' a')"
  by (simp add: currentBalance_def bal_ensure_def bal_update_def split: option.splits)

lemma ledger_sum_append:
  "ledger_sum (L @ L') u a = ledger_sum L u a + ledger_sum L' u a"
  by (simp add: ledger_sum_def)

lemma ledger_sum_single:
  "ledger_sum [r] u a = (if l_user r = u \<and> l_asset r = a then signed r else 0)"
  by (simp add: ledger_sum_def)

lemma ledger_sum_Nil [simp]: "ledger_sum [] u a = 0"
  by (simp add: ledger_sum_def)

text \<open>What a committed transfer did: the debit, and the ledger row it appended.\<close>

lemma wallet_transfer_InrD:
  assumes "wallet_transfer s userId now kind assetNorm chainNorm amount gasFeeUsdt = Inr s'"
  obtains totalDebit where "totalDebit > 0" "assetNorm = ''USDT''"
    "currentBalance (wallet_balances s) userId assetNorm \<ge> totalDebit"
    "wallet_balances s' = bal_upsert (wallet_balances s) userId assetNorm (- totalDebit)"
    "wallet_ledger s' = wallet_ledger s @
       [\<lparr>l_user = userId, l_asset = assetNorm, l_chain = Some chainNorm,
         l_type = (case kind of Crypto a \<Rightarrow> ''transfer_out'' | Bank c \<Rightarrow> ''withdraw''),
         l_amount = - totalDebit, l_ref = NullRef\<rparr>]"
  using assms
  by (auto simp: wallet_transfer_def Let_def split: if_splits sum.splits transfer_kind.splits)

lemma funded_transfer:
  "\<exists>s'. wallet_transfer funded_db 1 0 (Bank True) ''USDT'' ''BSC'' 10 0 = Inr s'"
  by (simp add: wallet_transfer_def funded_db_def empty_db_def quoteBankTransfer_def
      BANK_CONVERSION_FEE_PCT_def BANK_SEND_FEE_USDT_def currentBalance_def Let_def)

lemma funded_no_drift: "no_drift funded_db 1 ''USDT''"
  by (simp add: no_drift_def funded_db_def empty_db_def currentBalance_def ledger_sum_def
      signed_def PLUS_def)

subsection \<open>The operations that keep the projection equal to the signed ledger sum\<close>

lemma no_drift_swap:
  assumes "no_drift s u a" and "wallet_swap s userId fromAsset toAsset x = Inr s'"
  shows "no_drift s' u a"
  using assms
  by (auto simp: wallet_swap_def swap_supported_def no_drift_def Let_def currentBalance_upsert
      ledger_sum_append ledger_sum_single ledger_sum_def signed_def PLUS_def MINUS_def
      split: if_splits)

lemma no_drift_stake_open:
  assumes "no_drift s u a" and "stake_open s userId body = Inr s'"
  shows "no_drift s' u a"
  using assms
  by (auto simp: stake_open_def no_drift_def Let_def currentBalance_update_ensure
      ledger_sum_append ledger_sum_def signed_def PLUS_def MINUS_def
      split: if_splits sum.splits)

lemma no_drift_credit_deposit:
  assumes "no_drift s u a" and "creditDepositAndWebhook path s depositId amount txHash now = Inr s'"
  shows "no_drift s' u a"
  using assms
  by (auto simp: creditDepositAndWebhook_def no_drift_def Let_def currentBalance_upsert
      ledger_sum_append ledger_sum_def signed_def PLUS_def
      split: if_splits option.splits credit_path.splits)

lemma sweep_step_wallet [simp]:
  "wallet_balances (sweep_step outcome i s) = wallet_balances s"
  "wallet_ledger (sweep_step outcome i s) = wallet_ledger s"
  by (simp_all add: sweep_step_def split: sweep_outcome.splits)

lemma no_drift_sweeper_deposit:
  assumes "no_drift s u a"
  shows "no_drift (sweeper_deposit MIN_DEPOSIT outcome d s) u a"
  using assms
  by (auto simp: sweeper_deposit_def no_drift_def Let_def currentBalance_upsert
      ledger_sum_append ledger_sum_def signed_def PLUS_def
      split: if_splits option.splits)

lemma no_drift_process_winner:
  assumes "no_drift s u a"
  shows "no_drift (process_winner ord airdropId w s) u a"
  using assms
  by (auto simp: process_winner_def no_drift_def Let_def currentBalance_update_ensure
      ledger_sum_append ledger_sum_def signed_def PLUS_def
      split: if_splits option.splits)

lemma no_drift_referral_claim:
  assumes "no_drift s u a" and "referral_claim s userId rate minPHP minUSDT = Inr s'"
  shows "no_drift s' u a"
  using assms
  by (auto simp: referral_claim_def no_drift_def Let_def currentBalance_upsert
      ledger_sum_append ledger_sum_def signed_def PLUS_def
      split: if_splits)

lemma no_drift_claimCredit:
  assumes "no_drift s u a" and "claimCredit s userId creditId now = (r, s')"
  shows "no_drift s' u a"
  using assms
  by (auto simp: claimCredit_def no_drift_def Let_def currentBalance_upsert
      ledger_sum_append ledger_sum_def signed_def PLUS_def MINUS_def
      split: if_splits option.splits)

lemma no_drift_apply_operation:
  assumes "no_drift s u a" and "\<not> is_transfer op"
  shows "no_drift (apply_operation now op s) u a"
proof (cases op)
  case (Deposit_credit path depositId amount txHash)
  then show ?thesis
    using assms(1) no_drift_credit_deposit [of s u a path depositId amount txHash now]
    by (auto simp: committed_def split: sum.splits)
next
  case (Sweeper_credit m outcome d)
  then show ?thesis using assms(1) by (simp add: no_drift_sweeper_deposit)
next
  case (Stake_open userId body)
  then show ?thesis
    using assms(1) no_drift_stake_open [of s u a userId body]
    by (auto simp: committed_def split: sum.splits)
next
  case (Airdrop_payout ord airdropId w)
  then show ?thesis using assms(1) by (simp add: no_drift_process_winner)
next
  case (Referral_claim userId rate minPHP minUSDT)
  then show ?thesis
    using assms(1) no_drift_referral_claim [of s u a userId rate minPHP minUSDT]
    by (auto simp: committed_def split: sum.splits)
next
  case (Reward_claim userId creditId)
  then show ?thesis
    using assms(1) no_drift_claimCredit [of s u a userId creditId now
        "fst (claimCredit s userId creditId now)" "snd (claimCredit s userId creditId now)"]
    by simp
next
  case (Swap userId fromAsset toAsset amount)
  then show ?thesis
    using assms(1) no_drift_swap [of s u a userId fromAsset toAsset amount]
    by (auto simp: committed_def split: sum.splits)
next
  case (Transfer userId kind assetNorm chainNorm amount gasFeeUsdt)
  with assms(2) show ?thesis by simp
qed

text \<open>Any sequence of operations with no transfer in it keeps the equality.\<close>

lemma no_drift_without_transfer:
  assumes "no_drift s u a" and "\<forall>op \<in> set ops. \<not> is_transfer op"
  shows "no_drift (fold (apply_operation now) ops s) u a"
  using assms
  by (induction ops arbitrary: s) (simp_all add: no_drift_apply_operation)

subsection \<open>The amounts of the rows the other operations append\<close>

lemma appended_rows_append [simp]:
  "wallet_ledger s' = wallet_ledger s @ rows \<Longrightarrow> appended_rows s s' = rows"
  by (simp add: appended_rows_def)

lemma appended_rows_same [simp]:
  "wallet_ledger s' = wallet_ledger s \<Longrightarrow> appended_rows s s' = []"
  by (simp add: appended_rows_def)

lemma swap_rows_positive:
  "wallet_swap s userId fromAsset toAsset x = Inr s' \<Longrightarrow>
   \<forall>r \<in> set (appended_rows s s'). 0 < l_amount r"
  by (auto simp: wallet_swap_def swap_supported_def Let_def appended_rows_def
      RATE_USDT_TO_VPK_def split: if_splits)

lemma stake_open_rows_positive:
  "stake_open s userId body = Inr s' \<Longrightarrow> \<forall>r \<in> set (appended_rows s s'). 0 < l_amount r"
  by (auto simp: stake_open_def Let_def appended_rows_def STAKE_UNIT_VPK_def STAKE_UNIT_USDT_def
      VPK_PER_USDT_def split: if_splits sum.splits)

lemma credit_deposit_rows_positive:
  "creditDepositAndWebhook path s depositId amount txHash now = Inr s' \<Longrightarrow>
   \<forall>r \<in> set (appended_rows s s'). 0 < l_amount r"
  by (auto simp: creditDepositAndWebhook_def Let_def appended_rows_def
      split: if_splits option.splits credit_path.splits)

lemma process_winner_rows_positive:
  "\<forall>r \<in> set (appended_rows s (process_winner ord airdropId w s)). 0 < l_amount r"
  by (auto simp: process_winner_def Let_def appended_rows_def split: if_splits option.splits)

lemma claimCredit_rows_positive:
  "\<forall>r \<in> set (appended_rows s (snd (claimCredit s userId creditId now))). 0 < l_amount r"
  by (auto simp: claimCredit_def Let_def appended_rows_def split: if_splits option.splits)

subsection \<open>The transfer\<close>

text \<open>
  C1. The claim: after any sequence of the balance-mutating operations the stored
  balance of every (user, asset) equals the sum of its ledger rows, each signed by the
  classification of its type. Deposit credit, stake open, airdrop payout, referral claim,
  reward-credit claim and swap keep that equality, and so does every sequence of them
  (the lemmas above). The transfer does
  not: it debits the balance by the quote's total and appends a row of a debit type
  whose stored amount is the negated total, which the classification negates again. So
  every committed transfer from a state without drift ends in a state with drift: the
  signed ledger sum is then above the stored balance by twice the debit.
\<close>

theorem transfer_drifts:
  assumes "no_drift s userId assetNorm"
      and "wallet_transfer s userId now kind assetNorm chainNorm amount gasFeeUsdt = Inr s'"
  shows "\<not> no_drift s' userId assetNorm"
  using assms(2)
proof (elim wallet_transfer_InrD)
  fix totalDebit :: rat
  assume pos: "0 < totalDebit"
    and B: "wallet_balances s' = bal_upsert (wallet_balances s) userId assetNorm (- totalDebit)"
    and L: "wallet_ledger s' = wallet_ledger s @
       [\<lparr>l_user = userId, l_asset = assetNorm, l_chain = Some chainNorm,
         l_type = (case kind of Crypto a \<Rightarrow> ''transfer_out'' | Bank c \<Rightarrow> ''withdraw''),
         l_amount = - totalDebit, l_ref = NullRef\<rparr>]"
  have sg: "ledger_sum (wallet_ledger s') userId assetNorm
              = ledger_sum (wallet_ledger s) userId assetNorm + totalDebit"
    by (cases kind) (simp_all add: L ledger_sum_append ledger_sum_single signed_def PLUS_def MINUS_def)
  have bl: "currentBalance (wallet_balances s') userId assetNorm
              = currentBalance (wallet_balances s) userId assetNorm - totalDebit"
    by (simp add: B currentBalance_upsert)
  show ?thesis
    using assms(1) pos sg bl by (simp add: no_drift_def)
qed

theorem transfer_drifts_witness:
  "no_drift funded_db 1 ''USDT'' \<and>
   (\<exists>s'. wallet_transfer funded_db 1 0 (Bank True) ''USDT'' ''BSC'' 10 0 = Inr s' \<and>
         \<not> no_drift s' 1 ''USDT'')"
proof -
  obtain s' where e: "wallet_transfer funded_db 1 0 (Bank True) ''USDT'' ''BSC'' 10 0 = Inr s'"
    using funded_transfer by blast
  from transfer_drifts [OF funded_no_drift e] e funded_no_drift show ?thesis by blast
qed

text \<open>
  C4. The claim: every appended ledger row stores a positive amount, the direction
  being carried by the type alone. The stake-open handler says so in a comment and
  does it, as do swap, deposit credit, airdrop payout and reward-credit claim (the
  lemmas above); the transfer handler inserts the negated total debit. Every committed
  transfer appends a row whose amount is negative.
\<close>

theorem transfer_row_amount_negative:
  assumes "wallet_transfer s userId now kind assetNorm chainNorm amount gasFeeUsdt = Inr s'"
  shows "wallet_ledger s' \<noteq> [] \<and> l_amount (last (wallet_ledger s')) < 0"
  using assms by (elim wallet_transfer_InrD) simp

theorem transfer_row_amount_negative_witness:
  "\<exists>s'. wallet_transfer funded_db 1 0 (Bank True) ''USDT'' ''BSC'' 10 0 = Inr s' \<and>
        wallet_ledger s' \<noteq> [] \<and> l_amount (last (wallet_ledger s')) < 0"
proof -
  obtain s' where e: "wallet_transfer funded_db 1 0 (Bank True) ''USDT'' ''BSC'' 10 0 = Inr s'"
    using funded_transfer by blast
  from transfer_row_amount_negative [OF e] e show ?thesis by blast
qed

subsection \<open>Debits and the availability check\<close>

text \<open>
  C5, as stated, fails for the swap: its availability check is
  \<open>currentBal + 1e-9 < amount\<close>, so a swap of \<open>1e-9\<close> USDT from an empty balance commits
  and leaves the balance at \<open>-1e-9\<close>.
\<close>

theorem swap_below_zero_counterexample:
  "balance_after (wallet_swap empty_db 1 ''USDT'' ''VPK'' (1 / 10 ^ 9)) 1 ''USDT'' = Some (- (1 / 10 ^ 9))"
  by (simp add: balance_after_def wallet_swap_def swap_supported_def empty_db_def
      currentBalance_def bal_upsert_def Let_def)

lemma stake_open_nonneg:
  "stake_open s u body = Inr s' \<Longrightarrow> 0 \<le> currentBalance (wallet_balances s') u ''VPK''"
  by (auto simp: stake_open_def Let_def currentBalance_update_ensure split: sum.splits if_splits)

lemma wallet_transfer_nonneg:
  assumes "wallet_transfer s u now kind a c amt g = Inr s'"
  shows "0 \<le> currentBalance (wallet_balances s') u a"
  using assms by (elim wallet_transfer_InrD) (simp add: currentBalance_upsert)

lemma wallet_swap_tolerance:
  "wallet_swap s u f t x = Inr s' \<Longrightarrow> - (1 / 10 ^ 9) \<le> currentBalance (wallet_balances s') u f"
  by (auto simp: wallet_swap_def swap_supported_def Let_def currentBalance_upsert split: if_splits)

lemma stake_open_insufficient:
  "body_units body = Inr n \<Longrightarrow> 1 \<le> n \<Longrightarrow>
   currentBalance (wallet_balances s) u ''VPK'' < of_int n * STAKE_UNIT_VPK \<Longrightarrow>
   stake_open s u body = Inl INSUFFICIENT_FUNDS"
  by (simp add: stake_open_def Let_def)

lemma wallet_swap_insufficient:
  "0 < x \<Longrightarrow> swap_supported f t \<Longrightarrow> currentBalance (wallet_balances s) u f + 1 / 10 ^ 9 < x \<Longrightarrow>
   wallet_swap s u f t x = Inl INSUFFICIENT_FUNDS"
  by (simp add: wallet_swap_def Let_def)

lemma quoteBank_pos: "0 < amt \<Longrightarrow> 0 < quoteBankTransfer amt"
  by (simp add: quoteBankTransfer_def BANK_CONVERSION_FEE_PCT_def BANK_SEND_FEE_USDT_def add_pos_pos)

lemma quoteCrypto_pos: "0 < amt \<Longrightarrow> 0 < quoteCryptoTransfer g amt"
  by (simp add: quoteCryptoTransfer_def MIN_NETWORK_FEE_USDT_def MAX_NETWORK_FEE_USDT_def
      add_pos_pos max_def min_def)

lemma wallet_transfer_bank_insufficient:
  "0 < amt \<Longrightarrow> currentBalance (wallet_balances s) u ''USDT'' < quoteBankTransfer amt \<Longrightarrow>
   wallet_transfer s u now (Bank True) ''USDT'' c amt g = Inl INSUFFICIENT_FUNDS"
  using quoteBank_pos [of amt] by (simp add: wallet_transfer_def Let_def)

lemma wallet_transfer_crypto_insufficient:
  "0 < amt \<Longrightarrow> 25 \<le> length addr \<Longrightarrow>
   currentBalance (wallet_balances s) u ''USDT'' < quoteCryptoTransfer g amt \<Longrightarrow>
   wallet_transfer s u now (Crypto addr) ''USDT'' ''BSC'' amt g = Inl INSUFFICIENT_FUNDS"
  using quoteCrypto_pos [of amt g] by (simp add: wallet_transfer_def Let_def)

text \<open>
  C5, amended. A committed stake open leaves the VPK balance at 0 or more, a committed
  transfer leaves the debited balance at 0 or more, and a committed swap leaves the
  debited balance at \<open>-1e-9\<close> or more (the tolerance of its check). When the balance is
  below what the handler's own check requires, a request that is otherwise valid fails
  with \<open>INSUFFICIENT_FUNDS\<close>; the failure carries no state: the transaction is rolled
  back and neither a balance nor the ledger changes.
\<close>

theorem debits_keep_balance:
  "(stake_open s u body = Inr s1 \<longrightarrow> 0 \<le> currentBalance (wallet_balances s1) u ''VPK'') \<and>
   (wallet_transfer s u now kind a c amt g = Inr s2 \<longrightarrow> 0 \<le> currentBalance (wallet_balances s2) u a) \<and>
   (wallet_swap s u f t x = Inr s3 \<longrightarrow> - (1 / 10 ^ 9) \<le> currentBalance (wallet_balances s3) u f) \<and>
   (body_units body = Inr n \<and> 1 \<le> n \<and>
      currentBalance (wallet_balances s) u ''VPK'' < of_int n * STAKE_UNIT_VPK \<longrightarrow>
      stake_open s u body = Inl INSUFFICIENT_FUNDS) \<and>
   (0 < amt \<and> currentBalance (wallet_balances s) u ''USDT'' < quoteBankTransfer amt \<longrightarrow>
      wallet_transfer s u now (Bank True) ''USDT'' c amt g = Inl INSUFFICIENT_FUNDS) \<and>
   (0 < amt \<and> 25 \<le> length addr \<and>
      currentBalance (wallet_balances s) u ''USDT'' < quoteCryptoTransfer g amt \<longrightarrow>
      wallet_transfer s u now (Crypto addr) ''USDT'' ''BSC'' amt g = Inl INSUFFICIENT_FUNDS) \<and>
   (0 < x \<and> swap_supported f t \<and> currentBalance (wallet_balances s) u f + 1 / 10 ^ 9 < x \<longrightarrow>
      wallet_swap s u f t x = Inl INSUFFICIENT_FUNDS)"
proof (intro conjI impI)
  assume "stake_open s u body = Inr s1"
  then show "0 \<le> currentBalance (wallet_balances s1) u ''VPK''"
    by (rule stake_open_nonneg)
next
  assume "wallet_transfer s u now kind a c amt g = Inr s2"
  then show "0 \<le> currentBalance (wallet_balances s2) u a"
    by (rule wallet_transfer_nonneg)
next
  assume "wallet_swap s u f t x = Inr s3"
  then show "- (1 / 10 ^ 9) \<le> currentBalance (wallet_balances s3) u f"
    by (rule wallet_swap_tolerance)
next
  assume "body_units body = Inr n \<and> 1 \<le> n \<and>
      currentBalance (wallet_balances s) u ''VPK'' < of_int n * STAKE_UNIT_VPK"
  then show "stake_open s u body = Inl INSUFFICIENT_FUNDS"
    by (simp add: stake_open_insufficient)
next
  assume "0 < amt \<and> currentBalance (wallet_balances s) u ''USDT'' < quoteBankTransfer amt"
  then show "wallet_transfer s u now (Bank True) ''USDT'' c amt g = Inl INSUFFICIENT_FUNDS"
    by (simp add: wallet_transfer_bank_insufficient)
next
  assume "0 < amt \<and> 25 \<le> length addr \<and>
      currentBalance (wallet_balances s) u ''USDT'' < quoteCryptoTransfer g amt"
  then show "wallet_transfer s u now (Crypto addr) ''USDT'' ''BSC'' amt g = Inl INSUFFICIENT_FUNDS"
    by (simp add: wallet_transfer_crypto_insufficient)
next
  assume "0 < x \<and> swap_supported f t \<and> currentBalance (wallet_balances s) u f + 1 / 10 ^ 9 < x"
  then show "wallet_swap s u f t x = Inl INSUFFICIENT_FUNDS"
    by (simp add: wallet_swap_insufficient)
qed

lemma vpk_stake:
  "\<exists>s'. stake_open vpk_db 1 \<lparr>b_amount = None, b_units = Some 2, b_cap_multiplier = Some (- 5)\<rparr> = Inr s'"
  by (simp add: stake_open_def body_units_def vpk_db_def empty_db_def currentBalance_def
      bal_ensure_def STAKE_UNIT_VPK_def STAKE_UNIT_USDT_def VPK_PER_USDT_def Let_def)

theorem debits_keep_balance_witness:
  "(\<exists>s1. stake_open vpk_db 1 \<lparr>b_amount = None, b_units = Some 2, b_cap_multiplier = Some (- 5)\<rparr> = Inr s1 \<and>
         0 \<le> currentBalance (wallet_balances s1) 1 ''VPK'') \<and>
   (\<exists>s2. wallet_transfer funded_db 1 0 (Bank True) ''USDT'' ''BSC'' 10 0 = Inr s2 \<and>
         0 \<le> currentBalance (wallet_balances s2) 1 ''USDT'') \<and>
   wallet_swap funded_db 1 ''USDT'' ''VPK'' 200 = Inl INSUFFICIENT_FUNDS \<and>
   stake_open vpk_db 1 \<lparr>b_amount = None, b_units = Some 3, b_cap_multiplier = None\<rparr> = Inl INSUFFICIENT_FUNDS"
proof -
  obtain s1 where e1: "stake_open vpk_db 1 \<lparr>b_amount = None, b_units = Some 2, b_cap_multiplier = Some (- 5)\<rparr> = Inr s1"
    using vpk_stake by blast
  obtain s2 where e2: "wallet_transfer funded_db 1 0 (Bank True) ''USDT'' ''BSC'' 10 0 = Inr s2"
    using funded_transfer by blast
  have h3: "(0::rat) < 200 \<and> swap_supported ''USDT'' ''VPK'' \<and>
            currentBalance (wallet_balances funded_db) 1 ''USDT'' + 1 / 10 ^ 9 < 200"
    by (simp add: swap_supported_def funded_db_def empty_db_def currentBalance_def)
  have h4: "body_units \<lparr>b_amount = None, b_units = Some 3, b_cap_multiplier = None\<rparr> = Inr 3 \<and> (1::int) \<le> 3 \<and>
            currentBalance (wallet_balances vpk_db) 1 ''VPK'' < of_int 3 * STAKE_UNIT_VPK"
    by (simp add: body_units_def vpk_db_def empty_db_def currentBalance_def
        STAKE_UNIT_VPK_def STAKE_UNIT_USDT_def VPK_PER_USDT_def)
  note a1 = debits_keep_balance [THEN conjunct1, THEN mp, OF e1]
  note a2 = debits_keep_balance [THEN conjunct2, THEN conjunct1, THEN mp, OF e2]
  note a3 = debits_keep_balance [THEN conjunct2, THEN conjunct2, THEN conjunct2, THEN conjunct2,
      THEN conjunct2, THEN conjunct2, THEN mp, OF h3]
  note a4 = debits_keep_balance [THEN conjunct2, THEN conjunct2, THEN conjunct2, THEN conjunct1,
      THEN mp, OF h4]
  show ?thesis
    using e1 e2 a1 a2 a3 a4 by blast
qed

subsection \<open>The cap multiplier of a new position\<close>

text \<open>
  C10. The stake-open handler takes \<open>cap_multiplier\<close> from the body as it is: the new
  position's cap is units * 9 * m for the m supplied, the default 3 applies only when
  the field is absent, and whether the request is accepted does not depend on the
  multiplier at all (no positivity check, bound or whitelist).
\<close>

theorem stake_open_cap_multiplier:
  assumes "stake_open s u body = Inr s'" and "body_units body = Inr n"
  shows "staking_positions s' \<noteq> [] \<and>
         p_cap_usdt (last (staking_positions s')) =
           of_int n * 9 * (case b_cap_multiplier body of Some m \<Rightarrow> m | None \<Rightarrow> 3) \<and>
         p_cap_multiplier (last (staking_positions s')) =
           (case b_cap_multiplier body of Some m \<Rightarrow> m | None \<Rightarrow> 3) \<and>
         (\<forall>m. isl (stake_open s u (body\<lparr>b_cap_multiplier := m\<rparr>)) = isl (stake_open s u body))"
  using assms
  by (auto simp: stake_open_def body_units_def Let_def STAKE_UNIT_USDT_def DEFAULT_MULT_def
      split: sum.splits if_splits option.splits)

theorem stake_open_cap_multiplier_witness:
  "\<exists>s'. stake_open vpk_db 1 \<lparr>b_amount = None, b_units = Some 2, b_cap_multiplier = Some (- 5)\<rparr> = Inr s' \<and>
        p_cap_usdt (last (staking_positions s')) = - 90 \<and>
        p_cap_multiplier (last (staking_positions s')) = - 5"
proof -
  obtain s' where e: "stake_open vpk_db 1 \<lparr>b_amount = None, b_units = Some 2, b_cap_multiplier = Some (- 5)\<rparr> = Inr s'"
    using vpk_stake by blast
  have u: "body_units \<lparr>b_amount = None, b_units = Some 2, b_cap_multiplier = Some (- 5)\<rparr> = Inr 2"
    by (simp add: body_units_def)
  from stake_open_cap_multiplier [OF e u] e show ?thesis by auto
qed

section \<open>Properties of the deposit credit\<close>

text \<open>
  The credit helper of the server and of the watcher is idempotent: once it has
  committed for a deposit, any further call for that deposit commits and changes
  nothing, and it never adds a second ledger row.
\<close>

lemma find_update_deposits:
  assumes "\<And>d. d_id (f d) = d_id d"
  shows "(\<exists>y. find (\<lambda>d. d_id d = i) (update_deposits j g f D) = Some y) \<longleftrightarrow>
         (\<exists>y. find (\<lambda>d. d_id d = i) D = Some y)"
  using assms by (induction D) (auto simp: update_deposits_def)

lemma crypto_deposits_evaluate [simp]:
  "crypto_deposits (evaluateRewardCreditsForUser s u now) = crypto_deposits s"
  by (simp add: evaluateRewardCreditsForUser_def Let_def)

lemma credit_helper_after:
  assumes "creditDepositAndWebhook path s i amount txHash now = Inr s1"
  shows "(\<exists>y. find (\<lambda>d. d_id d = i) (crypto_deposits s1) = Some y) \<and>
         (\<exists>l \<in> set (wallet_ledger s1). deposit_row_of i l)"
  using assms
  by (auto simp: creditDepositAndWebhook_def Let_def find_update_deposits deposit_row_of_def
      split: option.splits if_splits credit_path.splits)

lemma credit_helper_replay:
  assumes "creditDepositAndWebhook path s i amount txHash now = Inr s1"
  shows "creditDepositAndWebhook path' s1 i amount' txHash' now' = Inr s1"
  using credit_helper_after [OF assms]
  by (auto simp: creditDepositAndWebhook_def split: option.splits)

lemma credit_helper_rows:
  assumes "creditDepositAndWebhook path s i amount txHash now = Inr s1"
      and "deposit_rows s i \<le> 1"
  shows "deposit_rows s1 i \<le> 1"
  using assms
  by (auto simp: creditDepositAndWebhook_def Let_def deposit_rows_def deposit_row_of_def
      filter_empty_conv
      split: option.splits if_splits credit_path.splits)


text \<open>
  The same happens across paths: the watcher credits deposit 1 on a first log, a second
  log for the same address in the same scan writes the status \<open>confirming\<close> again (and
  the helper then commits as a no-op), and the sweeper's next run credits once more.
\<close>

lemma watcher_then_sweeper_credits_twice:
  "deposit_rows (sweeper_run 0 (\<lambda>i. GasNotReady)
     (watcher_log (watcher_log confirmed_deposit_db 1 12 (Hash ''0xa1'') 12 50 0)
        1 12 (Hash ''0xb2'') 12 20 0)) 1 = 2"
  by (simp add: sweeper_run_def sweeper_select_def sweeper_deposit_def sweep_step_def
      watcher_log_def creditDepositAndWebhook_def evaluateRewardCreditsForUser_def
      selected_credits_def
      update_deposits_def confirmed_deposit_db_def empty_db_def deposit_rows_def
      deposit_row_of_def currentBalance_def bal_upsert_def Let_def)

section \<open>Properties of the airdrop\<close>

subsection \<open>Drawing without replacement\<close>

lemma mset_remove_index:
  assumes "i < length xs"
  shows "mset xs = mset (take i xs @ drop (Suc i) xs) + {#xs ! i#}"
proof -
  have "xs = take i xs @ xs ! i # drop (Suc i) xs"
    using assms by (rule id_take_nth_drop)
  then have "mset xs = mset (take i xs @ xs ! i # drop (Suc i) xs)"
    by simp
  then show ?thesis by simp
qed

lemma draw_loop_sound:
  "k \<le> length bag \<Longrightarrow>
   length (draw_loop ds bag k) = k \<and> mset (draw_loop ds bag k) \<subseteq># mset bag"
proof (induction k arbitrary: ds bag)
  case 0
  then show ?case by simp
next
  case (Suc k)
  define idx where "idx = (case ds of [] \<Rightarrow> 0 | d # ds' \<Rightarrow> d mod length bag)"
  define rest where "rest = take idx bag @ drop (Suc idx) bag"
  from Suc.prems have ne: "bag \<noteq> []" by auto
  then have idx: "idx < length bag"
    by (simp add: idx_def split: list.splits)
  have len: "k \<le> length rest"
    using Suc.prems idx by (simp add: rest_def)
  have step: "draw_loop ds bag (Suc k) = bag ! idx # draw_loop (tl ds) rest k"
    using ne by (simp add: idx_def rest_def Let_def)
  from Suc.IH [OF len, of "tl ds"]
  have ih: "length (draw_loop (tl ds) rest k) = k" "mset (draw_loop (tl ds) rest k) \<subseteq># mset rest"
    by simp_all
  have "mset bag = mset rest + {#bag ! idx#}"
    unfolding rest_def using idx by (rule mset_remove_index)
  with ih show ?case
    unfolding step by (simp del: draw_loop.simps)
qed

lemma pick_sound:
  "length (pickWithoutReplacement ds arr k) = min k (length arr) \<and>
   mset (pickWithoutReplacement ds arr k) \<subseteq># mset arr"
  using draw_loop_sound [of k arr ds]
  by (auto simp: pickWithoutReplacement_def)

subsection \<open>Where tickets come from\<close>

lemma pick_guard:
  "(if 0 < k then pickWithoutReplacement ds arr k else []) = pickWithoutReplacement ds arr k"
  by (simp add: pickWithoutReplacement_def)


lemma cohorts_skip:
  "p_units r \<le> 0 \<Longrightarrow> cohorts prevUnits g (r # rows) = cohorts prevUnits g rows"
  by simp

lemma cohorts_inactive:
  "\<not> p_units r \<le> 0 \<Longrightarrow> p_status r \<noteq> ''active'' \<or> unconsumedUnits r \<le> 0 \<Longrightarrow>
   cohorts prevUnits g (r # rows) = cohorts prevUnits (g + p_units r) rows"
  by (auto simp: Let_def case_prod_beta)

lemma cohorts_active:
  "\<not> p_units r \<le> 0 \<Longrightarrow> p_status r = ''active'' \<Longrightarrow> \<not> unconsumedUnits r \<le> 0 \<Longrightarrow>
   \<exists>a b. cohorts prevUnits g (r # rows) =
     (replicate a (ticket_of r) @ fst (cohorts prevUnits (g + p_units r) rows),
      replicate b (ticket_of r) @ snd (cohorts prevUnits (g + p_units r) rows))"
proof -
  assume a: "\<not> p_units r \<le> 0" "p_status r = ''active''" "\<not> unconsumedUnits r \<le> 0"
  let ?rec = "cohorts prevUnits (g + p_units r) rows"
  let ?oldOverlap = "oldOverlap_of (g + 1) (g + p_units r) prevUnits"
  let ?newOverlap = "newOverlap_of (g + 1) (g + p_units r) prevUnits"
  show ?thesis
  proof (cases "?oldOverlap + ?newOverlap \<le> 0")
    case True
    with a have "cohorts prevUnits g (r # rows) = ?rec"
      by (simp add: Let_def case_prod_beta)
    then have "cohorts prevUnits g (r # rows) =
        (replicate 0 (ticket_of r) @ fst ?rec, replicate 0 (ticket_of r) @ snd ?rec)"
      by simp
    then show ?thesis by blast
  next
    case False
    with a have "cohorts prevUnits g (r # rows) =
        (replicate (nat (min ?oldOverlap (unconsumedUnits r))) (ticket_of r) @ fst ?rec,
         replicate (nat (min ?newOverlap (unconsumedUnits r - min ?oldOverlap (unconsumedUnits r))))
           (ticket_of r) @ snd ?rec)"
      by (simp add: Let_def case_prod_beta ticket_of_def)
    then show ?thesis by blast
  qed
qed

lemma cohorts_tickets:
  assumes "t \<in> set (fst (cohorts prevUnits g rows)) \<union> set (snd (cohorts prevUnits g rows))"
  shows "\<exists>r \<in> set rows. p_id r = position_id t \<and> p_user r = user_id t \<and>
           p_status r = ''active'' \<and>
           0 < \<lfloor>(p_cap_usdt r - p_credited_usdt r) / perUnitCap r\<rfloor>"
  using assms
proof (induction rows arbitrary: g)
  case Nil
  then show ?case by simp
next
  case (Cons r rows)
  show ?case
  proof (cases "p_units r \<le> 0")
    case True
    with Cons.prems have "t \<in> set (fst (cohorts prevUnits g rows)) \<union> set (snd (cohorts prevUnits g rows))"
      by (simp only: cohorts_skip)
    from Cons.IH [OF this] show ?thesis by auto
  next
    case units: False
    let ?rec = "cohorts prevUnits (g + p_units r) rows"
    show ?thesis
    proof (cases "p_status r \<noteq> ''active'' \<or> unconsumedUnits r \<le> 0")
      case True
      from Cons.prems have "t \<in> set (fst ?rec) \<union> set (snd ?rec)"
        unfolding cohorts_inactive [OF units True] .
      from Cons.IH [OF this] show ?thesis by auto
    next
      case False
      then have act: "p_status r = ''active''" and un: "\<not> unconsumedUnits r \<le> 0"
        by simp_all
      from cohorts_active [OF units act un, of prevUnits g rows]
      obtain a b where eq: "cohorts prevUnits g (r # rows) =
          (replicate a (ticket_of r) @ fst ?rec, replicate b (ticket_of r) @ snd ?rec)"
        by blast
      from Cons.prems have "t = ticket_of r \<or> t \<in> set (fst ?rec) \<union> set (snd ?rec)"
        unfolding eq by auto
      then show ?thesis
      proof
        assume t: "t = ticket_of r"
        define fl where "fl = \<lfloor>(p_cap_usdt r - p_credited_usdt r) / perUnitCap r\<rfloor>"
        from un have "0 < max 0 (min (p_units r) fl)"
          unfolding unconsumedUnits_def fl_def by linarith
        then have "0 < fl" by linarith
        then have "0 < \<lfloor>(p_cap_usdt r - p_credited_usdt r) / perUnitCap r\<rfloor>"
          unfolding fl_def .
        with t act show ?thesis by (simp add: ticket_of_def)
      next
        assume "t \<in> set (fst ?rec) \<union> set (snd ?rec)"
        from Cons.IH [OF this] show ?thesis by auto
      qed
    qed
  qed
qed

text \<open>
  C7. In a round, whatever the random draws are: at most \<open>AIRDROP_REWARD_UNITS\<close>
  tickets win in total; the new pool is drawn first, without replacement, for
  \<open>NEW_PICK\<close> winners or as many as the pool holds; the old pool is then filtered to the
  users not drawn from the new pool and drawn without replacement for the remaining
  places or as many as it holds; the winners are tickets of the pools (none is
  fabricated); and every winning ticket belongs to a position that is active and whose
  unconsumed capacity, floor((cap - credited) / per-unit payout), is positive.
\<close>

theorem airdrop_selection:
  assumes "buildCohortsConsumed s prevUnits = (oldTickets, newTickets)"
      and "select_winners oldTickets newTickets dsNew dsOld = (oldWinners, newWinners)"
  shows "length (oldWinners @ newWinners) \<le> AIRDROP_REWARD_UNITS \<and>
         length newWinners = min NEW_PICK (length newTickets) \<and>
         mset newWinners \<subseteq># mset newTickets \<and>
         mset oldWinners \<subseteq># mset (filter (\<lambda>t. user_id t \<notin> user_id ` set newWinners) oldTickets) \<and>
         length oldWinners =
           min (AIRDROP_REWARD_UNITS - length newWinners)
               (length (filter (\<lambda>t. user_id t \<notin> user_id ` set newWinners) oldTickets)) \<and>
         (\<forall>w \<in> set (oldWinners @ newWinners).
            \<exists>r \<in> set (staking_positions s).
              p_id r = position_id w \<and> p_user r = user_id w \<and> p_status r = ''active'' \<and>
              0 < \<lfloor>(p_cap_usdt r - p_credited_usdt r) / perUnitCap r\<rfloor>)"
proof -
  define newPick where "newPick = min NEW_PICK (min AIRDROP_REWARD_UNITS (length newTickets))"
  define oldFiltered where
    "oldFiltered = filter (\<lambda>t. user_id t \<notin> user_id ` set newWinners) oldTickets"
  define oldPick where
    "oldPick = min OLD_PICK (min (AIRDROP_REWARD_UNITS - length newWinners) (length oldFiltered))"
  have sel: "(oldWinners, newWinners) =
     (let nw = pickWithoutReplacement dsNew newTickets newPick;
          ofl = (if map user_id nw \<noteq> [] then filter (\<lambda>t. user_id t \<notin> set (map user_id nw)) oldTickets
                 else oldTickets)
      in (pickWithoutReplacement dsOld ofl
            (min OLD_PICK (min (AIRDROP_REWARD_UNITS - length nw) (length ofl))), nw))"
    unfolding assms(2) [symmetric] select_winners_def Let_def pick_guard newPick_def ..
  then have nw: "newWinners = pickWithoutReplacement dsNew newTickets newPick"
    by (simp add: Let_def)
  have filt: "(if map user_id newWinners \<noteq> []
               then filter (\<lambda>t. user_id t \<notin> set (map user_id newWinners)) oldTickets
               else oldTickets) = oldFiltered"
    by (simp add: oldFiltered_def)
  from sel have "oldWinners = (let nw = newWinners;
          ofl = (if map user_id nw \<noteq> [] then filter (\<lambda>t. user_id t \<notin> set (map user_id nw)) oldTickets
                 else oldTickets)
      in pickWithoutReplacement dsOld ofl
            (min OLD_PICK (min (AIRDROP_REWARD_UNITS - length nw) (length ofl))))"
    unfolding nw by (simp add: Let_def)
  then have ow: "oldWinners = pickWithoutReplacement dsOld oldFiltered oldPick"
    unfolding Let_def filt oldPick_def .
  have ln: "length newWinners = min NEW_PICK (length newTickets)"
    using pick_sound [of dsNew newTickets newPick]
    by (simp add: nw newPick_def NEW_PICK_def AIRDROP_REWARD_UNITS_def)
  have sn: "mset newWinners \<subseteq># mset newTickets"
    using pick_sound [of dsNew newTickets newPick] by (simp add: nw)
  have lo: "length oldWinners = min (AIRDROP_REWARD_UNITS - length newWinners) (length oldFiltered)"
    using pick_sound [of dsOld oldFiltered oldPick]
    by (simp add: ow oldPick_def OLD_PICK_def AIRDROP_REWARD_UNITS_def)
  have so: "mset oldWinners \<subseteq># mset oldFiltered"
    using pick_sound [of dsOld oldFiltered oldPick] by (simp add: ow)
  have total: "length (oldWinners @ newWinners) \<le> AIRDROP_REWARD_UNITS"
    using lo ln by (simp add: NEW_PICK_def AIRDROP_REWARD_UNITS_def)
  have origin: "\<exists>r \<in> set (staking_positions s).
              p_id r = position_id w \<and> p_user r = user_id w \<and> p_status r = ''active'' \<and>
              0 < \<lfloor>(p_cap_usdt r - p_credited_usdt r) / perUnitCap r\<rfloor>"
    if "w \<in> set (oldWinners @ newWinners)" for w
  proof -
    have "set oldWinners \<subseteq> set oldTickets"
      using set_mset_mono [OF so] by (auto simp: oldFiltered_def)
    moreover have "set newWinners \<subseteq> set newTickets"
      using set_mset_mono [OF sn] by simp
    ultimately have "w \<in> set oldTickets \<union> set newTickets"
      using that by auto
    then have "w \<in> set (fst (cohorts prevUnits 0 (staking_positions s))) \<union>
                   set (snd (cohorts prevUnits 0 (staking_positions s)))"
      using assms(1) by (simp add: buildCohortsConsumed_def)
    then show ?thesis by (rule cohorts_tickets)
  qed
  show ?thesis
    using total ln sn so lo origin unfolding oldFiltered_def by blast
qed




lemma two_positions_cohorts:
  "buildCohortsConsumed two_positions_db 2 = ([ticket1, ticket1], [ticket2, ticket2, ticket2, ticket2, ticket2])"
  by code_simp

lemma two_positions_winners:
  "select_winners [ticket1, ticket1] [ticket2, ticket2, ticket2, ticket2, ticket2] [7, 1, 0, 2] [3] = ([ticket1, ticket1], [ticket2, ticket2, ticket2, ticket2])"
  by code_simp

theorem airdrop_selection_witness:
  "buildCohortsConsumed two_positions_db 2 = ([ticket1, ticket1], [ticket2, ticket2, ticket2, ticket2, ticket2]) \<and>
   select_winners [ticket1, ticket1] [ticket2, ticket2, ticket2, ticket2, ticket2] [7, 1, 0, 2] [3] = ([ticket1, ticket1], [ticket2, ticket2, ticket2, ticket2]) \<and>
   length ([ticket1, ticket1] @ [ticket2, ticket2, ticket2, ticket2]) \<le> AIRDROP_REWARD_UNITS \<and>
   length [ticket2, ticket2, ticket2, ticket2] = min NEW_PICK (length [ticket2, ticket2, ticket2, ticket2, ticket2]) \<and>
   mset [ticket2, ticket2, ticket2, ticket2] \<subseteq># mset [ticket2, ticket2, ticket2, ticket2, ticket2]"
  using airdrop_selection [OF two_positions_cohorts two_positions_winners]
    two_positions_cohorts two_positions_winners
  by blast

subsection \<open>Payouts and the cap\<close>



















lemma three_wins_left_to_right:
  "map p_credited_usdt (staking_positions
     (run_payouts LeftToRight [(1, ticket1), (1, ticket1), (1, ticket1)] two_positions_db)) = [27, 0] \<and>
   map p_status (staking_positions
     (run_payouts LeftToRight [(1, ticket1), (1, ticket1), (1, ticket1)] two_positions_db))
     = [''completed'', ''active''] \<and>
   map r_amount_usdt (staking_airdrop_recipients
     (run_payouts LeftToRight [(1, ticket1), (1, ticket1), (1, ticket1)] two_positions_db)) = [27]"
  by code_simp


section \<open>Properties of the reward credits\<close>

subsection \<open>The evaluation pass, row by row\<close>



lemma row_step_id [simp]: "c_id (row_step s userId now c r) = c_id r"
  by (simp add: row_step_def Let_def)












lemma evaluated_row_fields [simp]:
  "c_id (evaluated_row s u now c) = c_id c"
  "c_user (evaluated_row s u now c) = c_user c"
  "c_conditions (evaluated_row s u now c) = c_conditions c"
  "c_expires_at (evaluated_row s u now c) = c_expires_at c"
  "c_amount_usdt (evaluated_row s u now c) = c_amount_usdt c"
  by (simp_all add: evaluated_row_def)








subsection \<open>The claim\<close>













lemma claim_ledger_check:
  assumes "userId \<noteq> 0" and "creditId \<noteq> 0"
      and "find (\<lambda>c. c_id c = creditId) (reward_credits (evaluateRewardCreditsForUser s userId now)) = Some c"
      and "c_user c = userId" and "\<not> expired_at now c" and "c_status c = ''claimable''"
      and "0 < c_amount_usdt c"
      and "\<exists>l \<in> set (wallet_ledger s). claim_row_of userId creditId l"
  shows "fst (claimCredit s userId creditId now) = AlreadyClaimed (c_amount_usdt c)"
  using assms by (simp add: claimCredit_def Let_def expired_at_def)




section \<open>Properties of the referral commissions\<close>

text \<open>
  C6, as stated, fails on a retry: \<open>awardReferral\<close> does not return early when rows of
  the trigger exist, it skips the beneficiaries that have a row and inserts the others
  (its comment: filling missing levels later is allowed). User 1's award of pool 10
  first creates the rows of level 1 (4.5) and of the company (5.5). After user 2
  attaches to user 3's code, the retried award computes level 1 (4.5), level 2 (2.5)
  and company (3.0), skips the two that exist and inserts level 2: the rows of the
  trigger then sum to 12.5, not to the pool.
\<close>

theorem retry_overpays_counterexample:
  "event_total first_award 1 ''staking_reward'' ''airdrop:1'' = Some 10 \<and>
   event_total retry_after_attach 1 ''staking_reward'' ''airdrop:1'' = Some (25 / 2) \<and>
   pool_of company_cfg ''staking_reward'' 100 = 10 \<and>
   rounding_tolerance ''USDT'' < 25 / 2 - 10"
  by code_simp

subsection \<open>Rounding\<close>

lemma js_round_bound: "\<bar>rat_of_int (js_round x) - x\<bar> \<le> 1 / 2"
proof -
  have "rat_of_int \<lfloor>x + 1 / 2\<rfloor> \<le> x + 1 / 2" "x + 1 / 2 < rat_of_int \<lfloor>x + 1 / 2\<rfloor> + 1"
    by linarith+
  then show ?thesis
    unfolding js_round_def by linarith
qed

lemma scaled_round_bound:
  assumes "0 < K"
  shows "\<bar>rat_of_int (js_round (raw * K)) / K - raw\<bar> \<le> 1 / 2 / K"
proof -
  have "rat_of_int (js_round (raw * K)) / K - raw = (rat_of_int (js_round (raw * K)) - raw * K) / K"
    using assms by (simp add: field_simps)
  then have "\<bar>rat_of_int (js_round (raw * K)) / K - raw\<bar> = \<bar>rat_of_int (js_round (raw * K)) - raw * K\<bar> / K"
    using assms by (simp add: abs_divide)
  also have "\<dots> \<le> (1 / 2) / K"
    by (rule divide_right_mono [OF js_round_bound]) (use assms in simp)
  finally show ?thesis .
qed

lemma calcShare_bound:
  "\<bar>calcShare a pool T w - pool * (w / T)\<bar> \<le> rounding_tolerance a / 4"
proof (cases "a = ''PHP''")
  case True
  then show ?thesis
    using scaled_round_bound [of 100 "pool * (w / T)"]
    by (simp add: calcShare_def rounding_tolerance_def Let_def)
next
  case False
  then show ?thesis
    using scaled_round_bound [of "10 ^ 8" "pool * (w / T)"]
    by (simp add: calcShare_def rounding_tolerance_def Let_def)
qed

lemma js_round_nonneg: "0 \<le> x \<Longrightarrow> 0 \<le> js_round x"
  by (simp add: js_round_def)

lemma calcShare_nonneg:
  assumes "0 \<le> pool * (w / T)"
  shows "0 \<le> calcShare a pool T w"
proof -
  have r: "0 \<le> js_round (pool * (w / T) * K)" if "0 \<le> K" for K
    by (rule js_round_nonneg) (rule mult_nonneg_nonneg [OF assms that])
  from r [of 100] r [of "10 ^ 8"] show ?thesis
    by (simp add: calcShare_def Let_def)
qed


subsection \<open>The computed beneficiaries\<close>

text \<open>
  The shares are taken of the sum of the weights in effect, so the commissions
  computed by one call sum to the pool within the tolerance, with or without a company
  recipient.
\<close>

lemma commission_sum_append [simp]:
  "commission_sum (xs @ ys) = commission_sum xs + commission_sum ys"
  by (simp add: commission_sum_def)

lemma commission_events_InrD:
  assumes "commission_events cfg U refereeId t asset amt = Inr events"
  obtains l1 l2 l3 w1 w2 w3 coW where
    "upline U refereeId = (l1, l2, l3)"
    "effective_weights l1 l2 l3
       (if REF_COMPANY_USER_ID cfg > 0 then Some (REF_COMPANY_USER_ID cfg) else None) = (w1, w2, w3, coW)"
    "0 < pool_of cfg t amt" "0 < w1 + w2 + w3 + coW"
    "events =
       level_event (normal_asset asset) (pool_of cfg t amt) (w1 + w2 + w3 + coW) l1 w1 ''1'' @
       level_event (normal_asset asset) (pool_of cfg t amt) (w1 + w2 + w3 + coW) l2 w2 ''2'' @
       level_event (normal_asset asset) (pool_of cfg t amt) (w1 + w2 + w3 + coW) l3 w3 ''3'' @
       level_event (normal_asset asset) (pool_of cfg t amt) (w1 + w2 + w3 + coW)
         (if REF_COMPANY_USER_ID cfg > 0 then Some (REF_COMPANY_USER_ID cfg) else None) coW ''company''"
proof -
  obtain l1 l2 l3 where u: "upline U refereeId = (l1, l2, l3)"
    by (cases "upline U refereeId") auto
  let ?co = "if REF_COMPANY_USER_ID cfg > 0 then Some (REF_COMPANY_USER_ID cfg) else None"
  obtain w1 w2 w3 coW where w: "effective_weights l1 l2 l3 ?co = (w1, w2, w3, coW)"
    by (cases "effective_weights l1 l2 l3 ?co") auto
  from assms have "0 < pool_of cfg t amt \<and> 0 < w1 + w2 + w3 + coW \<and>
    events =
       level_event (normal_asset asset) (pool_of cfg t amt) (w1 + w2 + w3 + coW) l1 w1 ''1'' @
       level_event (normal_asset asset) (pool_of cfg t amt) (w1 + w2 + w3 + coW) l2 w2 ''2'' @
       level_event (normal_asset asset) (pool_of cfg t amt) (w1 + w2 + w3 + coW) l3 w3 ''3'' @
       level_event (normal_asset asset) (pool_of cfg t amt) (w1 + w2 + w3 + coW) ?co coW ''company''"
    unfolding commission_events_def Let_def u w prod.case pool_of_def normal_asset_def
    by (simp split: if_splits)
  with u w that show ?thesis by blast
qed

lemma effective_weights_facts:
  assumes "effective_weights l1 l2 l3 co = (w1, w2, w3, coW)"
  shows "0 \<le> w1" "0 \<le> w2" "0 \<le> w3" "0 \<le> coW"
    "l1 = None \<longrightarrow> w1 = 0" "l2 = None \<longrightarrow> w2 = 0" "l3 = None \<longrightarrow> w3 = 0" "co = None \<longrightarrow> coW = 0"
    "co \<noteq> None \<longrightarrow> w1 + w2 + w3 + coW = 10"
    "co \<noteq> None \<longrightarrow> coW = COMPANY_SHARE + (if l1 = None then LVL1_SHARE else 0)
                                      + (if l2 = None then LVL2_SHARE else 0)
                                      + (if l3 = None then LVL3_SHARE else 0)"
    "l1 \<noteq> None \<longrightarrow> w1 = LVL1_SHARE"
  using assms
  by (auto simp: effective_weights_def Let_def LVL1_SHARE_def LVL2_SHARE_def LVL3_SHARE_def
      COMPANY_SHARE_def)

lemma level_event_bound:
  assumes "0 \<le> pool" and "0 \<le> w" and "0 < T" and "recipient = None \<longrightarrow> w = 0"
  shows "\<bar>commission_sum (level_event a pool T recipient w label) - pool * (w / T)\<bar>
         \<le> rounding_tolerance a / 4"
proof (cases "recipient = None \<or> w = 0")
  case True
  with assms(4) have "w = 0" by auto
  then have "level_event a pool T recipient w label = []"
    by (simp add: level_event_def split: option.splits)
  with \<open>w = 0\<close> show ?thesis
    by (simp add: commission_sum_def rounding_tolerance_def)
next
  case False
  then obtain i where r: "recipient = Some i" and w: "w \<noteq> 0" by auto
  have nn: "0 \<le> calcShare a pool T w"
    using assms(1-3) by (intro calcShare_nonneg) simp
  have "commission_sum (level_event a pool T recipient w label) = calcShare a pool T w"
    using nn r w by (auto simp: level_event_def commission_sum_def Let_def)
  then show ?thesis
    using calcShare_bound [of a pool T w] by (simp only:)
qed

lemma commission_sum_bound:
  assumes "commission_events cfg U refereeId t asset amt = Inr events"
  shows "\<bar>commission_sum events - pool_of cfg t amt\<bar> \<le> rounding_tolerance (normal_asset asset)"
proof -
  let ?co = "if REF_COMPANY_USER_ID cfg > 0 then Some (REF_COMPANY_USER_ID cfg) else None"
  let ?a = "normal_asset asset"
  let ?pool = "pool_of cfg t amt"
  from assms obtain l1 l2 l3 w1 w2 w3 coW where
    w: "effective_weights l1 l2 l3 ?co = (w1, w2, w3, coW)"
    and pool: "0 < ?pool" and T: "0 < w1 + w2 + w3 + coW"
    and ev: "events =
       level_event ?a ?pool (w1 + w2 + w3 + coW) l1 w1 ''1'' @
       level_event ?a ?pool (w1 + w2 + w3 + coW) l2 w2 ''2'' @
       level_event ?a ?pool (w1 + w2 + w3 + coW) l3 w3 ''3'' @
       level_event ?a ?pool (w1 + w2 + w3 + coW) ?co coW ''company''"
    by (rule commission_events_InrD)
  define T where "T = w1 + w2 + w3 + coW"
  note f = effective_weights_facts [OF w]
  have p0: "0 \<le> ?pool" using pool by simp
  have Tp: "0 < T" using T by (simp add: T_def)
  have b1: "\<bar>commission_sum (level_event ?a ?pool T l1 w1 ''1'') - ?pool * (w1 / T)\<bar>
            \<le> rounding_tolerance ?a / 4"
    using p0 f(1) Tp f(5) by (rule level_event_bound)
  have b2: "\<bar>commission_sum (level_event ?a ?pool T l2 w2 ''2'') - ?pool * (w2 / T)\<bar>
            \<le> rounding_tolerance ?a / 4"
    using p0 f(2) Tp f(6) by (rule level_event_bound)
  have b3: "\<bar>commission_sum (level_event ?a ?pool T l3 w3 ''3'') - ?pool * (w3 / T)\<bar>
            \<le> rounding_tolerance ?a / 4"
    using p0 f(3) Tp f(7) by (rule level_event_bound)
  have b4: "\<bar>commission_sum (level_event ?a ?pool T ?co coW ''company'') - ?pool * (coW / T)\<bar>
            \<le> rounding_tolerance ?a / 4"
    using p0 f(4) Tp f(8) by (rule level_event_bound)
  have "?pool * (w1 / T) + ?pool * (w2 / T) + ?pool * (w3 / T) + ?pool * (coW / T)
        = ?pool * ((w1 + w2 + w3 + coW) / T)"
    by (simp add: add_divide_distrib distrib_left)
  also have "\<dots> = ?pool"
    using Tp by (simp add: T_def)
  finally have whole: "?pool * (w1 / T) + ?pool * (w2 / T) + ?pool * (w3 / T) + ?pool * (coW / T)
        = ?pool" .
  have "commission_sum events =
        commission_sum (level_event ?a ?pool T l1 w1 ''1'') +
        commission_sum (level_event ?a ?pool T l2 w2 ''2'') +
        commission_sum (level_event ?a ?pool T l3 w3 ''3'') +
        commission_sum (level_event ?a ?pool T ?co coW ''company'')"
    unfolding ev T_def by simp
  with b1 b2 b3 b4 whole show ?thesis
    by linarith
qed


subsection \<open>The rows a first award inserts\<close>

lemma fold_insert_fresh:
  assumes "distinct (map fst events)"
      and "\<forall>e \<in> set T. e_referee e = refereeId \<and> e_type e = t \<and> e_source_ref e = src
             \<longrightarrow> e_referrer e \<notin> fst ` set events"
      and "set ex \<inter> fst ` set events = {}"
  shows "fold (\<lambda>(referrerId, commission, label) T.
                 if referrerId \<in> set ex then T
                 else insert_ignore
                   \<lparr>e_referee = refereeId, e_referrer = referrerId, e_type = t, e_asset = a,
                    e_base_amount = amt, e_commission_amount = commission,
                    e_status = ''pending'', e_source_ref = src, e_level = label,
                    e_claim_id = None\<rparr> T)
              events T =
         T @ map (\<lambda>(referrerId, commission, label).
                   \<lparr>e_referee = refereeId, e_referrer = referrerId, e_type = t, e_asset = a,
                    e_base_amount = amt, e_commission_amount = commission,
                    e_status = ''pending'', e_source_ref = src, e_level = label,
                    e_claim_id = None\<rparr>) events"
  using assms
proof (induction events arbitrary: T)
  case Nil
  then show ?case by simp
next
  case (Cons ev events)
  obtain i c l where ev: "ev = (i, c, l)" by (cases ev)
  let ?row = "\<lparr>e_referee = refereeId, e_referrer = i, e_type = t, e_asset = a,
                e_base_amount = amt, e_commission_amount = c,
                e_status = ''pending'', e_source_ref = src, e_level = l, e_claim_id = None\<rparr>"
  from Cons.prems(3) ev have nex: "i \<notin> set ex" by auto
  from Cons.prems(2) ev have "\<not> (\<exists>e \<in> set T. e_referee e = e_referee ?row \<and>
      e_referrer e = e_referrer ?row \<and> e_type e = e_type ?row \<and> e_source_ref e = e_source_ref ?row)"
    by auto
  then have ins: "insert_ignore ?row T = T @ [?row]"
    by (simp only: insert_ignore_def if_False)
  have d: "distinct (map fst events)" and ni: "i \<notin> fst ` set events"
    using Cons.prems(1) ev by auto
  have inv: "\<forall>e \<in> set (T @ [?row]). e_referee e = refereeId \<and> e_type e = t \<and> e_source_ref e = src
             \<longrightarrow> e_referrer e \<notin> fst ` set events"
    using Cons.prems(2) ni by auto
  have ex: "set ex \<inter> fst ` set events = {}"
    using Cons.prems(3) by auto
  from Cons.IH [OF d inv ex] show ?case
    by (simp add: ev nex ins)
qed

lemma award_first_time:
  assumes "commission_events cfg (users s) refereeId t asset amt = Inr events"
      and "event_rows (referral_events s) refereeId t src = []"
      and "distinct (map fst events)"
  shows "\<exists>s'. awardReferral cfg s refereeId t asset amt src = Inr s' \<and>
           map (\<lambda>e. (e_referrer e, e_commission_amount e, e_level e))
             (event_rows (referral_events s') refereeId t src) = events"
proof -
  have none: "\<forall>e \<in> set (referral_events s). e_referee e = refereeId \<and> e_type e = t \<and> e_source_ref e = src
             \<longrightarrow> e_referrer e \<notin> fst ` set events"
    using assms(2) by (auto simp: event_rows_def filter_empty_conv)
  note fresh = fold_insert_fresh [OF assms(3) none, of "[]" "normal_asset asset" amt]
  have rows: "map (\<lambda>e. (e_referrer e, e_commission_amount e, e_level e))
          (event_rows (map (\<lambda>(referrerId, commission, label).
                   \<lparr>e_referee = refereeId, e_referrer = referrerId, e_type = t,
                    e_asset = normal_asset asset,
                    e_base_amount = amt, e_commission_amount = commission,
                    e_status = ''pending'', e_source_ref = src, e_level = label,
                    e_claim_id = None\<rparr>) evs) refereeId t src) = evs" for evs :: "beneficiary list"
    by (induction evs) (auto simp: event_rows_def)
  have er: "event_rows (A @ B) refereeId t src = event_rows A refereeId t src @ event_rows B refereeId t src"
    for A B by (simp add: event_rows_def)
  show ?thesis
    using fresh rows
    by (simp add: awardReferral_def assms(1,2) Let_def normal_asset_def er)
qed

text \<open>
  C6, amended. For a call of \<open>awardReferral\<close> that passes validation, with a company
  recipient configured: the shares of the absent levels are added to the company's
  weight, so the weights in effect total 10; the commissions computed for the
  beneficiaries sum to the pool within the rounding tolerance; with level 1 present and
  levels 2 and 3 absent the beneficiaries are level 1 with share 4.5 and the company
  with its own share plus those of levels 2 and 3; and when the trigger has no row yet
  and the beneficiaries are distinct users, the call inserts exactly the computed
  beneficiaries, so the rows of the trigger sum to the pool within the tolerance.
\<close>

theorem referral_pool_distribution:
  assumes "commission_events cfg (users s) refereeId t asset amt = Inr events"
      and "0 < REF_COMPANY_USER_ID cfg"
  shows "(case upline (users s) refereeId of (l1, l2, l3) \<Rightarrow>
            case effective_weights l1 l2 l3 (Some (REF_COMPANY_USER_ID cfg)) of (w1, w2, w3, coW) \<Rightarrow>
              w1 + w2 + w3 + coW = 10 \<and>
              coW = COMPANY_SHARE + (if l1 = None then LVL1_SHARE else 0)
                                  + (if l2 = None then LVL2_SHARE else 0)
                                  + (if l3 = None then LVL3_SHARE else 0) \<and>
              (l1 \<noteq> None \<and> l2 = None \<and> l3 = None \<longrightarrow>
                 events =
                   level_event (normal_asset asset) (pool_of cfg t amt) 10 l1 LVL1_SHARE ''1'' @
                   level_event (normal_asset asset) (pool_of cfg t amt) 10
                     (Some (REF_COMPANY_USER_ID cfg)) (COMPANY_SHARE + LVL2_SHARE + LVL3_SHARE)
                     ''company'')) \<and>
         \<bar>commission_sum events - pool_of cfg t amt\<bar> \<le> rounding_tolerance (normal_asset asset) \<and>
         (event_rows (referral_events s) refereeId t src = [] \<and> distinct (map fst events) \<longrightarrow>
            (\<exists>s'. awardReferral cfg s refereeId t asset amt src = Inr s' \<and>
                  map (\<lambda>e. (e_referrer e, e_commission_amount e, e_level e))
                    (event_rows (referral_events s') refereeId t src) = events))"
proof -
  from assms(1) obtain l1 l2 l3 w1 w2 w3 coW where
    u: "upline (users s) refereeId = (l1, l2, l3)"
    and w0: "effective_weights l1 l2 l3
       (if REF_COMPANY_USER_ID cfg > 0 then Some (REF_COMPANY_USER_ID cfg) else None) = (w1, w2, w3, coW)"
    and ev0: "events =
       level_event (normal_asset asset) (pool_of cfg t amt) (w1 + w2 + w3 + coW) l1 w1 ''1'' @
       level_event (normal_asset asset) (pool_of cfg t amt) (w1 + w2 + w3 + coW) l2 w2 ''2'' @
       level_event (normal_asset asset) (pool_of cfg t amt) (w1 + w2 + w3 + coW) l3 w3 ''3'' @
       level_event (normal_asset asset) (pool_of cfg t amt) (w1 + w2 + w3 + coW)
         (if REF_COMPANY_USER_ID cfg > 0 then Some (REF_COMPANY_USER_ID cfg) else None) coW ''company''"
    by (rule commission_events_InrD)
  from w0 assms(2) have w: "effective_weights l1 l2 l3 (Some (REF_COMPANY_USER_ID cfg)) = (w1, w2, w3, coW)"
    by simp
  note f = effective_weights_facts [OF w]
  have T: "w1 + w2 + w3 + coW = 10" using f(9) by simp
  have co: "coW = COMPANY_SHARE + (if l1 = None then LVL1_SHARE else 0)
                                  + (if l2 = None then LVL2_SHARE else 0)
                                  + (if l3 = None then LVL3_SHARE else 0)"
    using f(10) by simp
  have sc: "events =
      level_event (normal_asset asset) (pool_of cfg t amt) 10 l1 LVL1_SHARE ''1'' @
      level_event (normal_asset asset) (pool_of cfg t amt) 10
        (Some (REF_COMPANY_USER_ID cfg)) (COMPANY_SHARE + LVL2_SHARE + LVL3_SHARE) ''company''"
    if "l1 \<noteq> None \<and> l2 = None \<and> l3 = None"
  proof -
    from that f(11) have "w1 = LVL1_SHARE" by simp
    moreover from that co have "coW = COMPANY_SHARE + LVL2_SHARE + LVL3_SHARE" by auto
    ultimately show ?thesis
      using that assms(2) unfolding ev0 T by (simp add: level_event_def)
  qed
  have part1: "(case upline (users s) refereeId of (l1, l2, l3) \<Rightarrow>
            case effective_weights l1 l2 l3 (Some (REF_COMPANY_USER_ID cfg)) of (w1, w2, w3, coW) \<Rightarrow>
              w1 + w2 + w3 + coW = 10 \<and>
              coW = COMPANY_SHARE + (if l1 = None then LVL1_SHARE else 0)
                                  + (if l2 = None then LVL2_SHARE else 0)
                                  + (if l3 = None then LVL3_SHARE else 0) \<and>
              (l1 \<noteq> None \<and> l2 = None \<and> l3 = None \<longrightarrow>
                 events =
                   level_event (normal_asset asset) (pool_of cfg t amt) 10 l1 LVL1_SHARE ''1'' @
                   level_event (normal_asset asset) (pool_of cfg t amt) 10
                     (Some (REF_COMPANY_USER_ID cfg)) (COMPANY_SHARE + LVL2_SHARE + LVL3_SHARE)
                     ''company''))"
    unfolding u w prod.case using T co sc by blast
  show ?thesis
    using part1 commission_sum_bound [OF assms(1)] award_first_time [OF assms(1)] by blast
qed

lemma chain_events:
  "commission_events company_cfg (users chain_db) 1 ''staking_reward'' ''USDT'' 100 =
     Inr [(2, 9 / 2, ''1''), (9, 11 / 2, ''company'')]"
  by code_simp

lemma chain_company: "0 < REF_COMPANY_USER_ID company_cfg"
  by code_simp

lemma chain_fresh:
  "event_rows (referral_events chain_db) 1 ''staking_reward'' ''airdrop:1'' = [] \<and>
   distinct (map fst [(2::nat, 9 / 2 :: rat, ''1''), (9, 11 / 2, ''company'')])"
  by code_simp

theorem referral_pool_distribution_witness:
  "commission_events company_cfg (users chain_db) 1 ''staking_reward'' ''USDT'' 100 =
     Inr [(2, 9 / 2, ''1''), (9, 11 / 2, ''company'')] \<and>
   0 < REF_COMPANY_USER_ID company_cfg \<and>
   \<bar>commission_sum [(2, 9 / 2, ''1''), (9, 11 / 2, ''company'')]
      - pool_of company_cfg ''staking_reward'' 100\<bar> \<le> rounding_tolerance (normal_asset ''USDT'') \<and>
   (\<exists>s'. awardReferral company_cfg chain_db 1 ''staking_reward'' ''USDT'' 100 ''airdrop:1'' = Inr s' \<and>
         map (\<lambda>e. (e_referrer e, e_commission_amount e, e_level e))
           (event_rows (referral_events s') 1 ''staking_reward'' ''airdrop:1'')
         = [(2, 9 / 2, ''1''), (9, 11 / 2, ''company'')])"
  using referral_pool_distribution [OF chain_events chain_company, of "''airdrop:1''"]
    chain_events chain_company chain_fresh
  by blast

end
